theory Spec2Isabelle
  imports Complex_Main "HOL-Library.Word"
begin

section \<open>Shared vocabulary\<close>

text \<open>
  What the C and C++ code does beyond returning a value is a value of the model: a failed
  \<^verbatim>\<open>GPR_ASSERT\<close> or a call of \<^verbatim>\<open>abort()\<close> ends the process, a read through a null
  pointer, outside an array or into released memory is undefined behaviour. Each is a
  \<open>failure\<close>, returned on the left of a sum.
\<close>

datatype failure = AssertionFailed | Aborted | NullDereference | OutOfBounds | UseAfterFree

text \<open>The status codes of \<^verbatim>\<open>grpc/status.h\<close>, in the order of their numeric values 0 to 16.\<close>

datatype grpc_status_code =
    GRPC_STATUS_OK
  | GRPC_STATUS_CANCELLED
  | GRPC_STATUS_UNKNOWN
  | GRPC_STATUS_INVALID_ARGUMENT
  | GRPC_STATUS_DEADLINE_EXCEEDED
  | GRPC_STATUS_NOT_FOUND
  | GRPC_STATUS_ALREADY_EXISTS
  | GRPC_STATUS_PERMISSION_DENIED
  | GRPC_STATUS_RESOURCE_EXHAUSTED
  | GRPC_STATUS_FAILED_PRECONDITION
  | GRPC_STATUS_ABORTED
  | GRPC_STATUS_OUT_OF_RANGE
  | GRPC_STATUS_UNIMPLEMENTED
  | GRPC_STATUS_INTERNAL
  | GRPC_STATUS_UNAVAILABLE
  | GRPC_STATUS_DATA_LOSS
  | GRPC_STATUS_UNAUTHENTICATED

datatype grpc_connectivity_state =
    GRPC_CHANNEL_IDLE
  | GRPC_CHANNEL_CONNECTING
  | GRPC_CHANNEL_READY
  | GRPC_CHANNEL_TRANSIENT_FAILURE
  | GRPC_CHANNEL_SHUTDOWN

text \<open>\<^verbatim>\<open>size_t\<close> is taken as 64 bits wide, \<^verbatim>\<open>int\<close> as 32 bits.\<close>

type_synonym size_t = "64 word"

definition INT_MAX :: int where
  "INT_MAX = 2147483647"

text \<open>
  A C \<^verbatim>\<open>int\<close> is an \<open>int\<close> of the model kept in range; \<open>wrap_int\<close> is the two's
  complement wrap-around of a result that left the range.
\<close>

definition wrap_int :: "int \<Rightarrow> int" where
  "wrap_int x = (x + 2 ^ 31) mod 2 ^ 32 - 2 ^ 31"

section \<open>Client channel: method parameters (client_channel.c)\<close>

datatype wait_for_ready_value =
  WAIT_FOR_READY_UNSET | WAIT_FOR_READY_FALSE | WAIT_FOR_READY_TRUE

text \<open>
  \<open>retryable_status_codes\<close> is the C array with its length: \<open>None\<close> is the null
  pointer, \<open>Some cs\<close> an allocated array holding \<open>cs\<close>.
\<close>

record retry_policy_params =
  max_retry_attempts :: int
  initial_backoff_ms :: int
  max_backoff_ms :: int
  backoff_multiplier :: int
  retryable_status_codes :: "grpc_status_code list option"

record gpr_timespec =
  tv_sec :: int
  tv_nsec :: int

record method_parameters =
  timeout :: gpr_timespec
  wait_for_ready :: wait_for_ready_value
  retry_policy :: "retry_policy_params option"

section \<open>Client channel: call state for retries (client_channel.c)\<close>

text \<open>
  A metadata batch is its list of key/value elements. \<^verbatim>\<open>grpc_metadata_batch_size\<close> and
  \<^verbatim>\<open>grpc_metadata_batch_copy\<close> belong to the transport library; the functions below take
  them, and the answers of the retry throttle and of the back-off, from an environment.
\<close>

type_synonym grpc_metadata_batch = "(string \<times> string) list"

record grpc_byte_stream =
  length_bs :: "32 word"

record cc_env =
  grpc_metadata_batch_size :: "grpc_metadata_batch \<Rightarrow> size_t"
  grpc_metadata_batch_copy :: "grpc_metadata_batch \<Rightarrow> grpc_metadata_batch option"
  record_failure_result :: bool
  backoff_begin_result :: int
  backoff_step_result :: int

text \<open>
  A batch of stream operations: the op flags of \<^verbatim>\<open>grpc_transport_stream_op_batch\<close> and
  the parts of its payload that the retry code reads.
\<close>

record grpc_transport_stream_op_batch =
  send_initial_metadata :: bool
  send_message :: bool
  send_trailing_metadata :: bool
  recv_initial_metadata :: bool
  recv_message :: bool
  recv_trailing_metadata :: bool
  cancel_stream :: bool
  collect_stats :: bool
  payload_send_initial_metadata :: grpc_metadata_batch
  payload_send_initial_metadata_flags :: "32 word"
  payload_send_message :: grpc_byte_stream
  payload_send_trailing_metadata :: grpc_metadata_batch

record pending_batch =
  batch :: "grpc_transport_stream_op_batch option"
  retry_checks_for_new_batch_done :: bool
  handler_in_flight :: bool

record subchannel_call_retry_state =
  started_send_message_count :: nat
  started_send_initial_metadata :: bool
  started_send_trailing_metadata :: bool
  started_recv_initial_metadata :: bool
  started_recv_message :: bool
  started_recv_trailing_metadata :: bool
  completed_send_message_count :: nat
  completed_send_initial_metadata :: bool
  completed_send_trailing_metadata :: bool
  completed_recv_initial_metadata :: bool
  completed_recv_message :: bool
  completed_recv_trailing_metadata :: bool
  recv_initial_metadata_ready_pending :: bool
  recv_message_null_pending :: bool
  retry_dispatched :: bool

record channel_data =
  per_rpc_retry_buffer_size :: size_t

text \<open>
  The retry part of \<^verbatim>\<open>call_data\<close>. \<open>error\<close> is the cancellation error
  (\<open>None\<close> is \<^verbatim>\<open>GRPC_ERROR_NONE\<close>), \<open>subchannel_call\<close> a handle. A cached metadata
  copy and its storage are one field: \<open>None\<close> while the storage pointer is null. The
  byte-stream caches \<^verbatim>\<open>initial_send_message\<close> and \<^verbatim>\<open>send_messages\<close> are the list
  \<open>send_message_caches\<close>, as \<^verbatim>\<open>get_send_message_cache\<close> indexes them. The C
  fields keep their values when the memory behind them is released; \<open>released\<close> lists
  the cached objects that \<^verbatim>\<open>retry_committed()\<close> has destroyed or freed.
\<close>

datatype cached_send_object =
    CachedSendInitialMetadata
  | CachedSendMessage nat
  | CachedSendTrailingMetadata
  | CachedSendMessagesArray

record call_data =
  method_params :: "method_parameters option"
  subchannel_call :: "nat option"
  error :: "string option"
  pending_batches :: "pending_batch list"
  retry_committed :: bool
  num_retry_attempts :: int
  bytes_buffered_for_retry :: size_t
  retry_timer :: "int option"
  seen_send_initial_metadata :: bool
  send_initial_metadata_storage :: "grpc_metadata_batch option"
  send_initial_metadata_flags :: "32 word"
  num_send_message_ops :: nat
  send_message_caches :: "grpc_byte_stream list"
  seen_send_trailing_metadata :: bool
  send_trailing_metadata_storage :: "grpc_metadata_batch option"
  released :: "cached_send_object list"

definition MAX_PENDING_BATCHES :: nat where
  "MAX_PENDING_BATCHES = 7"

definition DEFAULT_PER_RPC_RETRY_BUFFER_SIZE :: size_t where
  "DEFAULT_PER_RPC_RETRY_BUFFER_SIZE = push_bit 30 1"

definition RETRY_BACKOFF_JITTER :: real where
  "RETRY_BACKOFF_JITTER = 0.2"

text \<open>
  \<^verbatim>\<open>retry_committed()\<close>: sets the flag once and releases the cached copies: the
  initial metadata when its storage is not null, \<^verbatim>\<open>initial_send_message\<close> (message 0)
  when a message was cached, \<^verbatim>\<open>send_messages[i]\<close> (message \<open>i + 1\<close>) for
  \<^verbatim>\<open>i < (int)num_send_message_ops - 2\<close>, the trailing metadata when its storage is not
  null, and the array \<^verbatim>\<open>send_messages\<close>. It leaves the fields as they are.
\<close>

definition retry_committed_fn :: "call_data \<Rightarrow> call_data" where
  "retry_committed_fn calld =
     (if retry_committed calld then calld
      else calld\<lparr>retry_committed := True,
                 released :=
                   released calld
                   @ (if send_initial_metadata_storage calld \<noteq> None
                      then [CachedSendInitialMetadata] else [])
                   @ (if num_send_message_ops calld > 0 then [CachedSendMessage 0] else [])
                   @ map (\<lambda>i. CachedSendMessage (i + 1))
                       [0..<nat (wrap_int (int (num_send_message_ops calld)) - 2)]
                   @ (if send_trailing_metadata_storage calld \<noteq> None
                      then [CachedSendTrailingMetadata] else [])
                   @ [CachedSendMessagesArray]\<rparr>)"

definition retries_configured :: "call_data \<Rightarrow> bool" where
  "retries_configured calld =
     (case method_params calld of None \<Rightarrow> False
      | Some mp \<Rightarrow> retry_policy mp \<noteq> None)"

definition set_pending :: "call_data \<Rightarrow> nat \<Rightarrow> pending_batch \<Rightarrow> call_data" where
  "set_pending calld i p = calld\<lparr>pending_batches := (pending_batches calld)[i := p]\<rparr>"

text \<open>
  \<^verbatim>\<open>retry_checks_for_new_batch(elem, pending)\<close>, with \<open>pending\<close> the slot \<open>i\<close> of
  \<open>pending_batches\<close>. The three stages of the C body after the early returns are the
  byte count, the limit check, and the caching of the send ops.
\<close>

definition count_bytes ::
  "cc_env \<Rightarrow> grpc_transport_stream_op_batch \<Rightarrow> size_t \<Rightarrow> size_t" where
  "count_bytes env b n =
     (let n1 = (if send_initial_metadata b
                then n + grpc_metadata_batch_size env (payload_send_initial_metadata b)
                else n)
      in if send_message b then n1 + ucast (length_bs (payload_send_message b)) else n1)"

definition cache_send_trailing_metadata ::
  "cc_env \<Rightarrow> grpc_transport_stream_op_batch \<Rightarrow> call_data \<Rightarrow> failure + call_data" where
  "cache_send_trailing_metadata env b calld =
     (if send_trailing_metadata b then
        (let c1 = calld\<lparr>seen_send_trailing_metadata := True\<rparr>
         in if send_trailing_metadata_storage c1 \<noteq> None then Inl AssertionFailed
            else case grpc_metadata_batch_copy env (payload_send_trailing_metadata b) of
                   None \<Rightarrow> Inr (retry_committed_fn c1)
                 | Some md \<Rightarrow> Inr (c1\<lparr>send_trailing_metadata_storage := Some md\<rparr>))
      else Inr calld)"

definition cache_send_message ::
  "grpc_transport_stream_op_batch \<Rightarrow> call_data \<Rightarrow> call_data" where
  "cache_send_message b calld =
     (if send_message b
      then calld\<lparr>num_send_message_ops := num_send_message_ops calld + 1,
                 send_message_caches := send_message_caches calld @ [payload_send_message b]\<rparr>
      else calld)"

definition cache_send_ops ::
  "cc_env \<Rightarrow> grpc_transport_stream_op_batch \<Rightarrow> call_data \<Rightarrow> failure + call_data" where
  "cache_send_ops env b calld =
     (if send_initial_metadata b then
        (let c1 = calld\<lparr>seen_send_initial_metadata := True\<rparr>
         in if send_initial_metadata_storage c1 \<noteq> None then Inl AssertionFailed
            else case grpc_metadata_batch_copy env (payload_send_initial_metadata b) of
                   None \<Rightarrow> Inr (retry_committed_fn c1)
                 | Some md \<Rightarrow>
                     cache_send_trailing_metadata env b
                       (cache_send_message b
                          (c1\<lparr>send_initial_metadata_storage := Some md,
                              send_initial_metadata_flags :=
                                payload_send_initial_metadata_flags b\<rparr>)))
      else cache_send_trailing_metadata env b (cache_send_message b calld))"

definition retry_checks_for_new_batch ::
  "cc_env \<Rightarrow> channel_data \<Rightarrow> call_data \<Rightarrow> nat \<Rightarrow> failure + call_data" where
  "retry_checks_for_new_batch env chand calld i =
     (if i \<ge> length (pending_batches calld) then Inl OutOfBounds
      else let pending = pending_batches calld ! i in
        if retry_checks_for_new_batch_done pending then Inr calld
        else
          let c0 = set_pending calld i (pending\<lparr>retry_checks_for_new_batch_done := True\<rparr>)
          in case batch pending of
               None \<Rightarrow> Inl NullDereference
             | Some b \<Rightarrow>
                 if cancel_stream b then Inr c0
                 else if \<not> retries_configured c0 \<or> retry_committed c0 then Inr c0
                 else
                   let c1 = c0\<lparr>bytes_buffered_for_retry :=
                                 count_bytes env b (bytes_buffered_for_retry c0)\<rparr>
                   in if bytes_buffered_for_retry c1 > per_rpc_retry_buffer_size chand
                      then Inr (retry_committed_fn c1)
                      else cache_send_ops env b c1)"

text \<open>\<^verbatim>\<open>is_status_code_in_list\<close>: a null list holds every status.\<close>

definition is_status_code_in_list ::
  "grpc_status_code \<Rightarrow> grpc_status_code list option \<Rightarrow> bool" where
  "is_status_code_in_list status list =
     (case list of None \<Rightarrow> True | Some cs \<Rightarrow> status \<in> set cs)"

text \<open>
  What \<^verbatim>\<open>maybe_retry\<close> does to the world outside the call: the calls to the retry
  throttle, the release of the transport call, the back-off and the timer whose closure
  is \<^verbatim>\<open>start_pick_locked\<close>.
\<close>

datatype retry_effect =
    ThrottleRecordSuccess
  | ThrottleRecordFailure
  | SubchannelCallUnref nat
  | BackoffInit int int real int int
  | BackoffBegin
  | BackoffStep
  | TimerInitStartPick int

text \<open>
  \<^verbatim>\<open>maybe_retry(elem, batch_data, status)\<close>. The third argument is the retry state of
  \<^verbatim>\<open>batch_data->subchannel_call\<close>, \<open>None\<close> when \<^verbatim>\<open>batch_data\<close> is null. The result
  is the returned flag, the call, that retry state, and the effects in order.
\<close>

definition maybe_retry ::
  "cc_env \<Rightarrow> call_data \<Rightarrow> subchannel_call_retry_state option \<Rightarrow> grpc_status_code
     \<Rightarrow> failure + (bool \<times> call_data \<times> subchannel_call_retry_state option \<times> retry_effect list)"
where
  "maybe_retry env calld retry_state status =
     (case method_params calld of
        None \<Rightarrow> Inl AssertionFailed
      | Some mp \<Rightarrow>
     (case retry_policy mp of
        None \<Rightarrow> Inl AssertionFailed
      | Some rp \<Rightarrow>
        if (case retry_state of None \<Rightarrow> False | Some rs \<Rightarrow> retry_dispatched rs)
        then Inr (True, calld, retry_state, [])
        else if status = GRPC_STATUS_OK
        then Inr (False, calld, retry_state, [ThrottleRecordSuccess])
        else if \<not> is_status_code_in_list status (retryable_status_codes rp)
        then Inr (False, calld, retry_state, [])
        else if \<not> record_failure_result env
        then Inr (False, calld, retry_state, [ThrottleRecordFailure])
        else if retry_committed calld
        then Inr (False, calld, retry_state, [ThrottleRecordFailure])
        else if num_retry_attempts calld = max_retry_attempts rp
        then Inr (False, calld, retry_state, [ThrottleRecordFailure])
        else if error calld \<noteq> None
        then Inr (False, calld, retry_state, [ThrottleRecordFailure])
        else
          let unref = (case subchannel_call calld of None \<Rightarrow> []
                       | Some sc \<Rightarrow> [SubchannelCallUnref sc]);
              first = (num_retry_attempts calld = 0);
              next_attempt_time =
                (if first then backoff_begin_result env else backoff_step_result env);
              backoff =
                (if first
                 then [BackoffInit (initial_backoff_ms rp) (backoff_multiplier rp)
                         RETRY_BACKOFF_JITTER
                         (min (initial_backoff_ms rp) (max_backoff_ms rp))
                         (max_backoff_ms rp),
                       BackoffBegin]
                 else [BackoffStep])
          in Inr (True,
                  calld\<lparr>subchannel_call := None,
                        retry_timer := Some next_attempt_time,
                        num_retry_attempts := wrap_int (num_retry_attempts calld + 1)\<rparr>,
                  map_option (\<lambda>rs. rs\<lparr>retry_dispatched := True\<rparr>) retry_state,
                  [ThrottleRecordFailure] @ unref @ backoff
                    @ [TimerInitStartPick next_attempt_time])))"


text \<open>
  \<^verbatim>\<open>start_retriable_subchannel_batches\<close>, first loop: the retry checks on every
  occupied slot of \<open>pending_batches\<close>.
\<close>

fun retry_checks_all ::
  "cc_env \<Rightarrow> channel_data \<Rightarrow> nat list \<Rightarrow> call_data \<Rightarrow> failure + call_data" where
  "retry_checks_all env chand [] calld = Inr calld"
| "retry_checks_all env chand (i # js) calld =
     (if i \<ge> length (pending_batches calld) then Inl OutOfBounds
      else if batch (pending_batches calld ! i) = None
      then retry_checks_all env chand js calld
      else case retry_checks_for_new_batch env chand calld i of
             Inl f \<Rightarrow> Inl f
           | Inr c \<Rightarrow> retry_checks_all env chand js c)"

text \<open>
  The batch a fresh \<^verbatim>\<open>subchannel_batch_data\<close> holds: the arena memory is zeroed, so no
  op is set.
\<close>

definition empty_batch :: grpc_transport_stream_op_batch where
  "empty_batch =
     \<lparr>send_initial_metadata = False, send_message = False, send_trailing_metadata = False,
      recv_initial_metadata = False, recv_message = False, recv_trailing_metadata = False,
      cancel_stream = False, collect_stats = False,
      payload_send_initial_metadata = [], payload_send_initial_metadata_flags = 0,
      payload_send_message = \<lparr>length_bs = 0\<rparr>, payload_send_trailing_metadata = []\<rparr>"

definition the_batch ::
  "grpc_transport_stream_op_batch option \<Rightarrow> grpc_transport_stream_op_batch" where
  "the_batch sb = (case sb of None \<Rightarrow> empty_batch | Some b \<Rightarrow> b)"

definition cached_md :: "grpc_metadata_batch option \<Rightarrow> grpc_metadata_batch" where
  "cached_md st = (case st of None \<Rightarrow> [] | Some md \<Rightarrow> md)"

text \<open>
  The send batch of an attempt, op by op as \<^verbatim>\<open>start_retriable_subchannel_batches\<close>
  adds them. \<open>sb\<close> is \<^verbatim>\<open>send_batch_data\<close>, \<open>None\<close> while it is null. A copy out of
  the cache that fails trips the \<^verbatim>\<open>GPR_ASSERT\<close> on it; a cached object that
  \<^verbatim>\<open>retry_committed()\<close> has released is read after its release. A message cache
  other than the first lies in the array \<^verbatim>\<open>send_messages\<close>.
\<close>

definition message_cache_released :: "call_data \<Rightarrow> nat \<Rightarrow> bool" where
  "message_cache_released calld index =
     (CachedSendMessage index \<in> set (released calld)
      \<or> (index > 0 \<and> CachedSendMessagesArray \<in> set (released calld)))"

definition send_op_initial_metadata ::
  "cc_env \<Rightarrow> call_data
     \<Rightarrow> grpc_transport_stream_op_batch option \<times> subchannel_call_retry_state
     \<Rightarrow> failure + (grpc_transport_stream_op_batch option \<times> subchannel_call_retry_state)" where
  "send_op_initial_metadata env calld s =
     (case s of (sb, rs) \<Rightarrow>
        if seen_send_initial_metadata calld \<and> \<not> started_send_initial_metadata rs then
          if CachedSendInitialMetadata \<in> set (released calld) then Inl UseAfterFree
          else
          (case grpc_metadata_batch_copy env (cached_md (send_initial_metadata_storage calld)) of
             None \<Rightarrow> Inl AssertionFailed
           | Some md \<Rightarrow>
               Inr (Some (empty_batch\<lparr>send_initial_metadata := True,
                                       payload_send_initial_metadata := md,
                                       payload_send_initial_metadata_flags :=
                                         send_initial_metadata_flags calld\<rparr>),
                    rs\<lparr>started_send_initial_metadata := True\<rparr>))
        else Inr (sb, rs))"

definition send_op_message ::
  "call_data
     \<Rightarrow> grpc_transport_stream_op_batch option \<times> subchannel_call_retry_state
     \<Rightarrow> failure + (grpc_transport_stream_op_batch option \<times> subchannel_call_retry_state)" where
  "send_op_message calld s =
     (case s of (sb, rs) \<Rightarrow>
        let have_pending_send_message_ops =
              started_send_message_count rs < num_send_message_ops calld;
            send_message_op_pending =
              started_send_message_count rs < completed_send_message_count rs
        in if have_pending_send_message_ops \<and> \<not> send_message_op_pending then
             (if started_send_message_count rs \<ge> length (send_message_caches calld)
              then Inl OutOfBounds
              else if message_cache_released calld (started_send_message_count rs)
              then Inl UseAfterFree
              else Inr (Some ((the_batch sb)\<lparr>send_message := True,
                                payload_send_message :=
                                  send_message_caches calld ! started_send_message_count rs\<rparr>),
                        rs\<lparr>started_send_message_count := started_send_message_count rs + 1\<rparr>))
           else Inr (sb, rs))"

definition send_op_trailing_metadata ::
  "cc_env \<Rightarrow> call_data
     \<Rightarrow> grpc_transport_stream_op_batch option \<times> subchannel_call_retry_state
     \<Rightarrow> failure + (grpc_transport_stream_op_batch option \<times> subchannel_call_retry_state)" where
  "send_op_trailing_metadata env calld s =
     (case s of (sb, rs) \<Rightarrow>
        if seen_send_trailing_metadata calld
           \<and> started_send_message_count rs = num_send_message_ops calld
           \<and> \<not> started_send_trailing_metadata rs then
          if CachedSendTrailingMetadata \<in> set (released calld) then Inl UseAfterFree
          else
          (case grpc_metadata_batch_copy env (cached_md (send_trailing_metadata_storage calld)) of
             None \<Rightarrow> Inl AssertionFailed
           | Some md \<Rightarrow>
               Inr (Some ((the_batch sb)\<lparr>send_trailing_metadata := True,
                                          payload_send_trailing_metadata := md\<rparr>),
                    rs\<lparr>started_send_trailing_metadata := True\<rparr>))
        else Inr (sb, rs))"

definition build_send_batch ::
  "cc_env \<Rightarrow> call_data \<Rightarrow> subchannel_call_retry_state
     \<Rightarrow> failure + (grpc_transport_stream_op_batch option \<times> subchannel_call_retry_state)" where
  "build_send_batch env calld rs =
     (case send_op_initial_metadata env calld (None, rs) of
        Inl f \<Rightarrow> Inl f
      | Inr s1 \<Rightarrow>
          (case send_op_message calld s1 of
             Inl f \<Rightarrow> Inl f
           | Inr s2 \<Rightarrow> send_op_trailing_metadata env calld s2))"

text \<open>
  The recv batches, one for each pending batch with a recv op not yet started on this
  attempt. The local array \<^verbatim>\<open>batches\<close> has two entries; a third write is out of bounds.
\<close>

definition recv_batch ::
  "bool \<Rightarrow> bool \<Rightarrow> bool \<Rightarrow> grpc_transport_stream_op_batch" where
  "recv_batch rim rm rtm =
     empty_batch\<lparr>recv_initial_metadata := rim, recv_message := rm,
                 recv_trailing_metadata := rtm, collect_stats := rtm\<rparr>"

fun build_recv_batches ::
  "pending_batch list
     \<Rightarrow> subchannel_call_retry_state \<times> grpc_transport_stream_op_batch list
     \<Rightarrow> failure + (subchannel_call_retry_state \<times> grpc_transport_stream_op_batch list)" where
  "build_recv_batches [] s = Inr s"
| "build_recv_batches (p # ps) (rs, batches) =
     (case batch p of
        None \<Rightarrow> build_recv_batches ps (rs, batches)
      | Some b \<Rightarrow>
          let start_recv_initial_metadata =
                (recv_initial_metadata b \<and> \<not> started_recv_initial_metadata rs);
              start_recv_message = (recv_message b \<and> \<not> started_recv_message rs);
              start_recv_trailing_metadata =
                (recv_trailing_metadata b \<and> \<not> started_recv_trailing_metadata rs)
          in if \<not> start_recv_initial_metadata \<and> \<not> start_recv_message
                \<and> \<not> start_recv_trailing_metadata
             then build_recv_batches ps (rs, batches)
             else if start_recv_trailing_metadata \<and> \<not> collect_stats b
             then Inl AssertionFailed
             else if length batches \<ge> 2 then Inl OutOfBounds
             else build_recv_batches ps
                    (rs\<lparr>started_recv_initial_metadata :=
                          started_recv_initial_metadata rs \<or> start_recv_initial_metadata,
                        started_recv_message := started_recv_message rs \<or> start_recv_message,
                        started_recv_trailing_metadata :=
                          started_recv_trailing_metadata rs \<or> start_recv_trailing_metadata\<rparr>,
                     batches @ [recv_batch start_recv_initial_metadata start_recv_message
                                  start_recv_trailing_metadata]))"

text \<open>
  \<^verbatim>\<open>start_retriable_subchannel_batches(elem)\<close>, with the retry state of the current
  transport call as third argument. The result lists the batches handed to
  \<^verbatim>\<open>grpc_subchannel_call_process_op\<close>, in the order of \<^verbatim>\<open>batches[]\<close>.
\<close>

definition start_retriable_subchannel_batches ::
  "cc_env \<Rightarrow> channel_data \<Rightarrow> call_data \<Rightarrow> subchannel_call_retry_state
     \<Rightarrow> failure + (grpc_transport_stream_op_batch list \<times> call_data
                     \<times> subchannel_call_retry_state)" where
  "start_retriable_subchannel_batches env chand calld rs =
     (case retry_checks_all env chand [0..<MAX_PENDING_BATCHES] calld of
        Inl f \<Rightarrow> Inl f
      | Inr c1 \<Rightarrow>
          (case build_send_batch env c1 rs of
             Inl f \<Rightarrow> Inl f
           | Inr (sb, rs1) \<Rightarrow>
               (case build_recv_batches (pending_batches c1)
                       (rs1, (case sb of None \<Rightarrow> [] | Some b \<Rightarrow> [b])) of
                  Inl f \<Rightarrow> Inl f
                | Inr (rs2, batches) \<Rightarrow>
                    if batches = [] then Inl AssertionFailed
                    else Inr (batches, c1, rs2))))"

section \<open>Client channel: service-config parsing (client_channel.c)\<close>

text \<open>
  A node of the JSON tree (\<^verbatim>\<open>grpc_json\<close>): its type, its key (\<open>None\<close> is a null
  pointer), its value text, and its children in the order of the \<^verbatim>\<open>child\<close> and
  \<^verbatim>\<open>next\<close> links. The value of a string or number node is the text of the C string.
\<close>

datatype grpc_json_type =
    GRPC_JSON_OBJECT
  | GRPC_JSON_ARRAY
  | GRPC_JSON_STRING
  | GRPC_JSON_NUMBER
  | GRPC_JSON_TRUE
  | GRPC_JSON_FALSE
  | GRPC_JSON_NULL
  | GRPC_JSON_TOP_LEVEL

datatype grpc_json =
  Json (json_type: grpc_json_type) (key: "string option") (json_value: string)
       (child: "grpc_json list")

text \<open>
  \<^verbatim>\<open>gpr_parse_nonnegative_int\<close> is declared in the support library and is not part of
  the sources at hand. The parsers below take it as their first argument: a function
  from the text of a C string to an \<^verbatim>\<open>int\<close>, which the callers test against \<open>-1\<close>
  or against \<open>0\<close>.
\<close>




text \<open>
  \<^verbatim>\<open>parse_timeout(field, timeout)\<close>: the returned flag and \<^verbatim>\<open>*timeout\<close> as the call
  leaves it (\<open>tmo\<close> below). The C code reads \<^verbatim>\<open>value[len - 1]\<close> first, which for the empty string is
  the byte before the buffer. \<open>buf\<close> is the copy without the trailing \<^verbatim>\<open>s\<close>,
  \<^verbatim>\<open>strchr\<close> finds its first point; \<^verbatim>\<open>tv_nsec\<close> is a 32-bit integer.
\<close>

definition parse_seconds ::
  "(string \<Rightarrow> int) \<Rightarrow> string \<Rightarrow> gpr_timespec \<Rightarrow> bool \<times> gpr_timespec" where
  "parse_seconds gpr_parse_nonnegative_int buf tmo =
     (let t = tmo\<lparr>tv_sec := gpr_parse_nonnegative_int buf\<rparr>
      in (tv_sec t \<noteq> - 1, t))"

definition parse_timeout ::
  "(string \<Rightarrow> int) \<Rightarrow> grpc_json \<Rightarrow> gpr_timespec
     \<Rightarrow> failure + (bool \<times> gpr_timespec)" where
  "parse_timeout gpr_parse_nonnegative_int field tmo =
     (if json_type field \<noteq> GRPC_JSON_STRING then Inr (False, tmo)
      else if json_value field = [] then Inl OutOfBounds
      else if last (json_value field) \<noteq> CHR ''s'' then Inr (False, tmo)
      else
        let buf = butlast (json_value field) in
        if CHR ''.'' \<in> set buf then
          (let whole = takeWhile (\<lambda>c. c \<noteq> CHR ''.'') buf;
               fraction = tl (dropWhile (\<lambda>c. c \<noteq> CHR ''.'') buf);
               t1 = tmo\<lparr>tv_nsec := gpr_parse_nonnegative_int fraction\<rparr>
           in if tv_nsec t1 = - 1 then Inr (False, t1)
              else if length fraction = 9
              then Inr (parse_seconds gpr_parse_nonnegative_int whole t1)
              else if length fraction = 6
              then Inr (parse_seconds gpr_parse_nonnegative_int whole
                          (t1\<lparr>tv_nsec := wrap_int (tv_nsec t1 * 1000)\<rparr>))
              else if length fraction = 3
              then Inr (parse_seconds gpr_parse_nonnegative_int whole
                          (t1\<lparr>tv_nsec := wrap_int (tv_nsec t1 * 1000000)\<rparr>))
              else Inr (False, t1))
        else Inr (parse_seconds gpr_parse_nonnegative_int buf tmo))"







section \<open>Round-robin policy (round_robin.cc)\<close>

text \<open>
  Channel args are looked up by key with \<^verbatim>\<open>grpc_channel_args_find\<close>: the first arg of
  that key, or null. An arg is a string, an integer or a pointer; the pointer args the
  policies read hold the address list \<^verbatim>\<open>grpc_lb_addresses\<close>.
\<close>

record grpc_lb_address =
  address :: string
  is_balancer :: bool
  balancer_name :: string
  address_user_data :: "string option"

datatype grpc_arg_value =
    ArgString string
  | ArgInteger int
  | ArgPointer "grpc_lb_address list"

type_synonym grpc_channel_args = "(string \<times> grpc_arg_value) list"

definition GRPC_ARG_LB_ADDRESSES :: string where
  "GRPC_ARG_LB_ADDRESSES = ''grpc.lb_addresses''"

definition GRPC_ARG_LB_POLICY_NAME :: string where
  "GRPC_ARG_LB_POLICY_NAME = ''grpc.lb_policy_name''"

definition grpc_channel_args_find ::
  "grpc_channel_args \<Rightarrow> string \<Rightarrow> grpc_arg_value option" where
  "grpc_channel_args_find args name = map_of args name"

text \<open>
  A subchannel of the list: handles for the subchannel and the connected subchannel
  (\<open>None\<close> is null), its connectivity as seen inside the combiner, and the user data of
  its address.
\<close>

record grpc_lb_subchannel_data =
  subchannel :: "nat option"
  connected_subchannel :: "nat option"
  curr_connectivity_state :: grpc_connectivity_state
  user_data :: "string option"

record grpc_lb_subchannel_list =
  subchannels :: "grpc_lb_subchannel_data list"
  shutting_down :: bool

definition num_subchannels :: "grpc_lb_subchannel_list \<Rightarrow> nat" where
  "num_subchannels sl = length (subchannels sl)"

text \<open>
  The pick (\<^verbatim>\<open>PickState\<close>). \<open>pick_user_data\<close> is the \<^verbatim>\<open>void**\<close> of the caller:
  \<open>None\<close> when the caller passed no slot, \<open>Some v\<close> a slot that holds \<open>v\<close>.
\<close>

record PickState =
  initial_metadata_flags :: "32 word"
  pick_connected_subchannel :: "nat option"
  pick_user_data :: "string option option"

text \<open>
  The policy object; the C++ members carry a trailing underscore. \<open>state_tracker\<close> is
  the state the tracker holds, \<open>pending_picks\<close> the linked list from its head.
\<close>

record RoundRobin =
  subchannel_list :: "grpc_lb_subchannel_list option"
  started_picking :: bool
  shutdown :: bool
  pending_picks :: "PickState list"
  state_tracker :: grpc_connectivity_state
  last_ready_subchannel_index :: nat
  latest_pending_subchannel_list :: "grpc_lb_subchannel_list option"

datatype rr_effect =
    StartConnectivityWatch nat
  | ShutdownAndUnrefList grpc_lb_subchannel_list

text \<open>
  The loop of \<^verbatim>\<open>GetNextReadySubchannelIndexLocked\<close> from its counter \<open>i\<close>. The sum
  \<^verbatim>\<open>i + last_ready_subchannel_index_ + 1\<close> is computed in \<^verbatim>\<open>size_t\<close>.
\<close>

function next_ready_from :: "grpc_lb_subchannel_data list \<Rightarrow> nat \<Rightarrow> nat \<Rightarrow> nat" where
  "next_ready_from scs last_ready i =
     (if i < length scs then
        (let index = ((i + last_ready + 1) mod 2 ^ 64) mod length scs
         in if curr_connectivity_state (scs ! index) = GRPC_CHANNEL_READY then index
            else next_ready_from scs last_ready (i + 1))
      else length scs)"
  by pat_completeness auto
termination
  by (relation "measure (\<lambda>(scs, last_ready, i). length scs - i)") auto

declare next_ready_from.simps [simp del]

definition GetNextReadySubchannelIndexLocked :: "RoundRobin \<Rightarrow> failure + nat" where
  "GetNextReadySubchannelIndexLocked p =
     (case subchannel_list p of
        None \<Rightarrow> Inl AssertionFailed
      | Some sl \<Rightarrow> Inr (next_ready_from (subchannels sl) (last_ready_subchannel_index p) 0))"

definition UpdateLastReadySubchannelIndexLocked ::
  "RoundRobin \<Rightarrow> nat \<Rightarrow> failure + RoundRobin" where
  "UpdateLastReadySubchannelIndexLocked p last_ready_index =
     (case subchannel_list p of
        None \<Rightarrow> Inl NullDereference
      | Some sl \<Rightarrow>
          if \<not> last_ready_index < num_subchannels sl then Inl AssertionFailed
          else Inr (p\<lparr>last_ready_subchannel_index := last_ready_index\<rparr>))"

definition StartPickingLocked :: "RoundRobin \<Rightarrow> failure + (RoundRobin \<times> rr_effect list)" where
  "StartPickingLocked p =
     (case subchannel_list p of
        None \<Rightarrow> Inl NullDereference
      | Some sl \<Rightarrow>
          Inr (p\<lparr>started_picking := True\<rparr>,
               map StartConnectivityWatch
                 (filter (\<lambda>i. subchannel (subchannels sl ! i) \<noteq> None)
                    [0..<num_subchannels sl])))"

definition queue_pick ::
  "RoundRobin \<Rightarrow> PickState \<Rightarrow> failure + (bool \<times> RoundRobin \<times> PickState \<times> rr_effect list)" where
  "queue_pick p pick =
     (if \<not> started_picking p then
        (case StartPickingLocked p of
           Inl f \<Rightarrow> Inl f
         | Inr (p1, effs) \<Rightarrow>
             Inr (False, p1\<lparr>pending_picks := pick # pending_picks p1\<rparr>, pick, effs))
      else Inr (False, p\<lparr>pending_picks := pick # pending_picks p\<rparr>, pick, []))"

text \<open>
  \<^verbatim>\<open>PickLocked(pick)\<close>: the returned flag (true is Done), the policy, the pick with its
  outputs, and the connectivity watches started.
\<close>

definition PickLocked ::
  "RoundRobin \<Rightarrow> PickState \<Rightarrow> failure + (bool \<times> RoundRobin \<times> PickState \<times> rr_effect list)" where
  "PickLocked p pick =
     (if shutdown p then Inl AssertionFailed
      else case subchannel_list p of
        None \<Rightarrow> queue_pick p pick
      | Some sl \<Rightarrow>
          (case GetNextReadySubchannelIndexLocked p of
             Inl f \<Rightarrow> Inl f
           | Inr next_ready_index \<Rightarrow>
               if next_ready_index < num_subchannels sl then
                 (let sd = subchannels sl ! next_ready_index;
                      pick1 = pick\<lparr>pick_connected_subchannel := connected_subchannel sd\<rparr>;
                      pick2 = (case pick_user_data pick1 of
                                 None \<Rightarrow> pick1
                               | Some old \<Rightarrow> pick1\<lparr>pick_user_data := Some (user_data sd)\<rparr>)
                  in case UpdateLastReadySubchannelIndexLocked p next_ready_index of
                       Inl f \<Rightarrow> Inl f
                     | Inr p1 \<Rightarrow> Inr (True, p1, pick2, []))
               else queue_pick p pick))"

text \<open>
  \<^verbatim>\<open>UpdateLocked(args)\<close>. Two collaborators are outside the sources at hand and are
  taken as parameters: \<open>set_state\<close> is \<^verbatim>\<open>grpc_connectivity_state_set\<close> on the state the
  tracker holds, \<open>create\<close> is \<^verbatim>\<open>grpc_lb_subchannel_list_create\<close> on the address list.
\<close>

definition UpdateLocked ::
  "(grpc_connectivity_state \<Rightarrow> grpc_connectivity_state \<Rightarrow> grpc_connectivity_state)
     \<Rightarrow> (grpc_lb_address list \<Rightarrow> grpc_lb_subchannel_list)
     \<Rightarrow> RoundRobin \<Rightarrow> grpc_channel_args \<Rightarrow> RoundRobin \<times> rr_effect list" where
  "UpdateLocked set_state create p args =
     (case grpc_channel_args_find args GRPC_ARG_LB_ADDRESSES of
        Some (ArgPointer addresses) \<Rightarrow>
          (let sl = create addresses in
           if num_subchannels sl = 0 then
             (p\<lparr>state_tracker := set_state (state_tracker p) GRPC_CHANNEL_TRANSIENT_FAILURE,
                subchannel_list := Some sl\<rparr>,
              (case subchannel_list p of None \<Rightarrow> []
               | Some old \<Rightarrow> [ShutdownAndUnrefList old]))
           else if started_picking p then
             (p\<lparr>latest_pending_subchannel_list := Some sl\<rparr>,
              (case latest_pending_subchannel_list p of None \<Rightarrow> []
               | Some old \<Rightarrow> [ShutdownAndUnrefList old])
              @ map StartConnectivityWatch [0..<num_subchannels sl])
           else
             (p\<lparr>subchannel_list := Some sl\<rparr>,
              (case subchannel_list p of None \<Rightarrow> []
               | Some old \<Rightarrow> [ShutdownAndUnrefList old])))
      | _ \<Rightarrow>
          (if subchannel_list p = None
           then (p\<lparr>state_tracker :=
                     set_state (state_tracker p) GRPC_CHANNEL_TRANSIENT_FAILURE\<rparr>, [])
           else (p, [])))"

text \<open>
  Modelled from the spec: \<^verbatim>\<open>grpc_connectivity_state_set\<close> is defined with the
  connectivity-state tracker, outside the sources at hand. The spec: the tracker takes
  the new state, and ``refuses to move off \<^verbatim>\<open>SHUTDOWN\<close>''.
\<close>

definition grpc_connectivity_state_set ::
  "grpc_connectivity_state \<Rightarrow> grpc_connectivity_state \<Rightarrow> grpc_connectivity_state" where
  "grpc_connectivity_state_set current new_state =
     (if current = GRPC_CHANNEL_SHUTDOWN then GRPC_CHANNEL_SHUTDOWN else new_state)"

text \<open>
  Modelled from the spec: \<^verbatim>\<open>grpc_lb_subchannel_list_create\<close> is defined with the
  subchannel list, outside the sources at hand. The spec: an update ``builds a fresh
  subchannel list from the new addresses''; a fresh subchannel is idle and not connected.
\<close>

definition grpc_lb_subchannel_list_create ::
  "grpc_lb_address list \<Rightarrow> grpc_lb_subchannel_list" where
  "grpc_lb_subchannel_list_create addresses =
     \<lparr>subchannels =
        map (\<lambda>(i, a). \<lparr>subchannel = Some i, connected_subchannel = None,
                       curr_connectivity_state = GRPC_CHANNEL_IDLE,
                       user_data = address_user_data a\<rparr>)
          (enumerate 0 addresses),
      shutting_down = False\<rparr>"

section \<open>grpclb policy: picks (grpclb.cc)\<close>

record grpc_grpclb_server =
  server_address :: string
  load_balance_token :: string
  drop :: bool

text \<open>
  The client stats keep one drop count for each load-balance token. The balancer call
  \<^verbatim>\<open>lb_calld_\<close> may be null, and so may its \<^verbatim>\<open>client_stats()\<close>.
\<close>

record grpc_grpclb_client_stats =
  drop_token_counts :: "string \<Rightarrow> nat"

record BalancerCallState =
  client_stats :: "grpc_grpclb_client_stats option"

text \<open>
  A pending pick wraps the pick of the application. \<open>lb_token\<close> is the metadata element
  the inner policy writes through \<^verbatim>\<open>pick->user_data\<close> (\<open>None\<close> is the null element);
  \<open>holds_client_stats\<close> says whether \<^verbatim>\<open>pp->client_stats\<close> holds a reference.
\<close>

record PendingPick =
  pick :: PickState
  lb_token :: "string option"
  holds_client_stats :: bool

record GrpcLb =
  serverlist :: "grpc_grpclb_server list option"
  serverlist_index :: nat
  rr_policy :: "RoundRobin option"
  lb_calld :: "BalancerCallState option"

datatype glb_effect =
    SchedOriginalOnComplete
  | AddLbTokenToInitialMetadata string
  | ClientStatsToCallContext
  | ClientStatsUnref
  | InnerRR rr_effect

definition PendingPickSetMetadataAndContext :: "PendingPick \<Rightarrow> failure + glb_effect list" where
  "PendingPickSetMetadataAndContext pp =
     (if pick_connected_subchannel (pick pp) \<noteq> None then
        (case lb_token pp of
           None \<Rightarrow> Inl Aborted
         | Some token \<Rightarrow>
             Inr (AddLbTokenToInitialMetadata token
                  # (if holds_client_stats pp then [ClientStatsToCallContext] else [])))
      else Inr (if holds_client_stats pp then [ClientStatsUnref] else []))"

definition has_client_stats :: "GrpcLb \<Rightarrow> bool" where
  "has_client_stats glb =
     (case lb_calld glb of None \<Rightarrow> False | Some calld \<Rightarrow> client_stats calld \<noteq> None)"

text \<open>
  The second half of \<^verbatim>\<open>PickFromInternalRRLocked\<close>: the pick handed to the inner
  round-robin policy \<^verbatim>\<open>rr_policy_\<close>.
\<close>

definition pick_via_rr ::
  "bool \<Rightarrow> GrpcLb \<Rightarrow> PendingPick
     \<Rightarrow> failure + (bool \<times> GrpcLb \<times> PendingPick \<times> glb_effect list)" where
  "pick_via_rr force_async glb pp =
     (let pp1 = (if has_client_stats glb then pp\<lparr>holds_client_stats := True\<rparr> else pp) in
      if pick_user_data (pick pp1) \<noteq> None then Inl AssertionFailed
      else
        let pick1 = (pick pp1)\<lparr>pick_user_data := Some (lb_token pp1)\<rparr> in
        case rr_policy glb of
          None \<Rightarrow> Inl NullDereference
        | Some rr \<Rightarrow>
            (case PickLocked rr pick1 of
               Inl f \<Rightarrow> Inl f
             | Inr (pick_done, rr1, pick2, rr_effs) \<Rightarrow>
                 let pp2 = pp1\<lparr>pick := pick2,
                               lb_token := (case pick_user_data pick2 of
                                              None \<Rightarrow> lb_token pp1 | Some v \<Rightarrow> v)\<rparr>;
                     glb1 = glb\<lparr>rr_policy := Some rr1\<rparr>
                 in if pick_done then
                      (case PendingPickSetMetadataAndContext pp2 of
                         Inl f \<Rightarrow> Inl f
                       | Inr effs \<Rightarrow>
                           if force_async
                           then Inr (False, glb1, pp2,
                                     map InnerRR rr_effs @ effs @ [SchedOriginalOnComplete])
                           else Inr (True, glb1, pp2, map InnerRR rr_effs @ effs))
                    else Inr (False, glb1, pp2, map InnerRR rr_effs)))"

text \<open>
  \<^verbatim>\<open>PickFromInternalRRLocked(force_async, pp)\<close>. \<open>add_call_dropped\<close> is
  \<^verbatim>\<open>grpc_grpclb_client_stats_add_call_dropped_locked\<close>, which is defined with the
  client stats, outside the sources at hand.
\<close>

definition PickFromInternalRRLocked ::
  "(string \<Rightarrow> grpc_grpclb_client_stats \<Rightarrow> grpc_grpclb_client_stats)
     \<Rightarrow> bool \<Rightarrow> GrpcLb \<Rightarrow> PendingPick
     \<Rightarrow> failure + (bool \<times> GrpcLb \<times> PendingPick \<times> glb_effect list)" where
  "PickFromInternalRRLocked add_call_dropped force_async glb pp =
     (case serverlist glb of
        None \<Rightarrow> pick_via_rr force_async glb pp
      | Some servers \<Rightarrow>
          if \<not> serverlist_index glb < length servers then Inl OutOfBounds
          else
            let server = servers ! serverlist_index glb;
                next_index = serverlist_index glb + 1;
                glb1 = glb\<lparr>serverlist_index :=
                             (if next_index = length servers then 0 else next_index)\<rparr>
            in if drop server then
                 (let glb2 =
                        (case lb_calld glb1 of
                           None \<Rightarrow> glb1
                         | Some calld \<Rightarrow>
                             (case client_stats calld of
                                None \<Rightarrow> glb1
                              | Some stats \<Rightarrow>
                                  glb1\<lparr>lb_calld :=
                                         Some (calld\<lparr>client_stats :=
                                                 Some (add_call_dropped
                                                         (load_balance_token server) stats)\<rparr>)\<rparr>))
                  in if force_async then Inr (False, glb2, pp, [SchedOriginalOnComplete])
                     else Inr (True, glb2, pp, []))
               else pick_via_rr force_async glb1 pp)"

text \<open>
  Modelled from the spec: \<^verbatim>\<open>grpc_grpclb_client_stats_add_call_dropped_locked\<close> is
  defined with the client stats, outside the sources at hand. The spec: a drop
  ``increments that token's drop count on the client-stats''.
\<close>

definition grpc_grpclb_client_stats_add_call_dropped_locked ::
  "string \<Rightarrow> grpc_grpclb_client_stats \<Rightarrow> grpc_grpclb_client_stats" where
  "grpc_grpclb_client_stats_add_call_dropped_locked token stats =
     stats\<lparr>drop_token_counts :=
             (drop_token_counts stats)(token := drop_token_counts stats token + 1)\<rparr>"

section \<open>Health-check client (health_check_client.cc)\<close>

definition HEALTH_CHECK_INITIAL_CONNECT_BACKOFF_SECONDS :: int where
  "HEALTH_CHECK_INITIAL_CONNECT_BACKOFF_SECONDS = 1"

definition HEALTH_CHECK_RECONNECT_BACKOFF_MULTIPLIER :: real where
  "HEALTH_CHECK_RECONNECT_BACKOFF_MULTIPLIER = 1.6"

definition HEALTH_CHECK_RECONNECT_MAX_BACKOFF_SECONDS :: int where
  "HEALTH_CHECK_RECONNECT_MAX_BACKOFF_SECONDS = 120"

definition HEALTH_CHECK_RECONNECT_JITTER :: real where
  "HEALTH_CHECK_RECONNECT_JITTER = 0.2"

text \<open>
  The back-off object \<^verbatim>\<open>retry_backoff_\<close>: the options it was built with, in
  milliseconds, and the number of attempt times handed out since the last reset. The
  class \<^verbatim>\<open>BackOff\<close> is outside the sources at hand; the time it answers for an attempt
  is a parameter \<open>attempt_time\<close> of the functions that ask it.
\<close>

record BackOff_Options =
  initial_backoff :: int
  multiplier :: real
  jitter :: real
  max_backoff :: int

record BackOff =
  options :: BackOff_Options
  attempts :: nat

definition Reset :: "BackOff \<Rightarrow> BackOff" where
  "Reset b = b\<lparr>attempts := 0\<rparr>"

definition NextAttemptTime ::
  "(BackOff_Options \<Rightarrow> nat \<Rightarrow> int) \<Rightarrow> BackOff \<Rightarrow> int \<times> BackOff" where
  "NextAttemptTime attempt_time b =
     (attempt_time (options b) (attempts b), b\<lparr>attempts := attempts b + 1\<rparr>)"

text \<open>
  The client; the C++ members carry a trailing underscore. \<open>health_state\<close> is
  \<^verbatim>\<open>state_\<close>, \<open>notify_state\<close> the state variable of the subscriber (\<open>None\<close> when
  \<^verbatim>\<open>notify_state_\<close> is null), \<open>call_state\<close> the id of the call state in use,
  \<open>health_retry_timer\<close> the deadline of the armed timer.
\<close>

record HealthCheckClient =
  health_state :: grpc_connectivity_state
  notify_state :: "grpc_connectivity_state option"
  health_shutting_down :: bool
  call_state :: "nat option"
  calls_created :: nat
  retry_timer_callback_pending :: bool
  health_retry_timer :: "int option"
  retry_backoff :: BackOff

record CallState =
  call_id :: nat
  seen_response :: bool

datatype health_effect =
    SchedOnHealthChanged grpc_connectivity_state
  | CallStateStartCall nat
  | TimerInitOnRetryTimer int

definition SetHealthStatusLocked ::
  "HealthCheckClient \<Rightarrow> grpc_connectivity_state \<Rightarrow> HealthCheckClient \<times> health_effect list" where
  "SetHealthStatusLocked c new_state =
     (case notify_state c of
        None \<Rightarrow> (c\<lparr>health_state := new_state\<rparr>, [])
      | Some observed \<Rightarrow>
          if observed \<noteq> new_state
          then (c\<lparr>notify_state := Some new_state, health_state := new_state\<rparr>,
                [SchedOnHealthChanged new_state])
          else (c\<lparr>health_state := new_state\<rparr>, []))"

definition StartCallLocked ::
  "HealthCheckClient \<Rightarrow> failure + (HealthCheckClient \<times> health_effect list)" where
  "StartCallLocked c =
     (if health_shutting_down c then Inr (c, [])
      else if call_state c \<noteq> None then Inl AssertionFailed
      else
        (case SetHealthStatusLocked c GRPC_CHANNEL_CONNECTING of
           (c1, effs) \<Rightarrow>
             Inr (c1\<lparr>call_state := Some (calls_created c1),
                     calls_created := calls_created c1 + 1\<rparr>,
                  effs @ [CallStateStartCall (calls_created c1)])))"

definition StartRetryTimer ::
  "(BackOff_Options \<Rightarrow> nat \<Rightarrow> int) \<Rightarrow> HealthCheckClient
     \<Rightarrow> HealthCheckClient \<times> health_effect list" where
  "StartRetryTimer attempt_time c =
     (case SetHealthStatusLocked c GRPC_CHANNEL_TRANSIENT_FAILURE of
        (c1, effs) \<Rightarrow>
          (case NextAttemptTime attempt_time (retry_backoff c1) of
             (next_try, b) \<Rightarrow>
               (c1\<lparr>retry_backoff := b, retry_timer_callback_pending := True,
                   health_retry_timer := Some next_try\<rparr>,
                effs @ [TimerInitOnRetryTimer next_try])))"

text \<open>\<^verbatim>\<open>OnRetryTimer(arg, error)\<close>; \<open>timer_error\<close> says that the error is not none.\<close>

definition OnRetryTimer ::
  "HealthCheckClient \<Rightarrow> bool \<Rightarrow> failure + (HealthCheckClient \<times> health_effect list)" where
  "OnRetryTimer c timer_error =
     (let c1 = c\<lparr>retry_timer_callback_pending := False\<rparr> in
      if \<not> health_shutting_down c1 \<and> \<not> timer_error \<and> call_state c1 = None
      then StartCallLocked c1
      else Inr (c1, []))"

text \<open>
  \<^verbatim>\<open>CallState::CallEnded(retry)\<close> on the call state \<open>self\<close>, and
  \<^verbatim>\<open>CallState::RecvTrailingMetadataReady(arg, error)\<close>. \<open>error_status\<close> is the status
  \<^verbatim>\<open>grpc_error_get_status\<close> reads from the error, \<open>None\<close> for no error;
  \<open>md_status\<close> is the \<^verbatim>\<open>grpc-status\<close> of the trailing metadata, \<open>None\<close> when absent.
\<close>

definition CallEnded ::
  "(BackOff_Options \<Rightarrow> nat \<Rightarrow> int) \<Rightarrow> HealthCheckClient \<Rightarrow> CallState \<Rightarrow> bool
     \<Rightarrow> failure + (HealthCheckClient \<times> health_effect list)" where
  "CallEnded attempt_time c self retry =
     (if call_state c = Some (call_id self) then
        (let c1 = c\<lparr>call_state := None\<rparr> in
         if retry then
           (if health_shutting_down c1 then Inl AssertionFailed
            else if seen_response self
            then StartCallLocked (c1\<lparr>retry_backoff := Reset (retry_backoff c1)\<rparr>)
            else Inr (StartRetryTimer attempt_time c1))
         else Inr (c1, []))
      else Inr (c, []))"

definition trailing_status ::
  "grpc_status_code option \<Rightarrow> grpc_status_code option \<Rightarrow> grpc_status_code" where
  "trailing_status error_status md_status =
     (case error_status of
        Some s \<Rightarrow> s
      | None \<Rightarrow> (case md_status of Some s \<Rightarrow> s | None \<Rightarrow> GRPC_STATUS_UNKNOWN))"

definition RecvTrailingMetadataReady ::
  "(BackOff_Options \<Rightarrow> nat \<Rightarrow> int) \<Rightarrow> HealthCheckClient \<Rightarrow> CallState
     \<Rightarrow> grpc_status_code option \<Rightarrow> grpc_status_code option
     \<Rightarrow> failure + (HealthCheckClient \<times> health_effect list)" where
  "RecvTrailingMetadataReady attempt_time c self error_status md_status =
     (if trailing_status error_status md_status = GRPC_STATUS_UNIMPLEMENTED then
        (case SetHealthStatusLocked c GRPC_CHANNEL_READY of
           (c1, effs) \<Rightarrow>
             (case CallEnded attempt_time c1 self False of
                Inl f \<Rightarrow> Inl f
              | Inr (c2, effs2) \<Rightarrow> Inr (c2, effs @ effs2)))
      else CallEnded attempt_time c self True)"

text \<open>The constructor: the back-off options, then \<^verbatim>\<open>StartCall()\<close>.\<close>

definition health_check_backoff_options :: BackOff_Options where
  "health_check_backoff_options =
     \<lparr>initial_backoff = HEALTH_CHECK_INITIAL_CONNECT_BACKOFF_SECONDS * 1000,
      multiplier = HEALTH_CHECK_RECONNECT_BACKOFF_MULTIPLIER,
      jitter = HEALTH_CHECK_RECONNECT_JITTER,
      max_backoff = HEALTH_CHECK_RECONNECT_MAX_BACKOFF_SECONDS * 1000\<rparr>"

definition HealthCheckClient_new ::
  "grpc_connectivity_state \<Rightarrow> failure + (HealthCheckClient \<times> health_effect list)" where
  "HealthCheckClient_new initial_state =
     StartCallLocked
       \<lparr>health_state = initial_state, notify_state = None, health_shutting_down = False,
        call_state = None, calls_created = 0, retry_timer_callback_pending = False,
        health_retry_timer = None,
        retry_backoff = \<lparr>options = health_check_backoff_options, attempts = 0\<rparr>\<rparr>"

section \<open>LB-policy factories and the policy a resolver result selects\<close>

text \<open>
  The factories of round_robin.cc and grpclb.cc with their \<^verbatim>\<open>name()\<close>, and the policy
  objects they construct.
\<close>

datatype LoadBalancingPolicyFactory = RoundRobinFactory | GrpcLbFactory

fun name :: "LoadBalancingPolicyFactory \<Rightarrow> string" where
  "name RoundRobinFactory = ''pick_first''"
| "name GrpcLbFactory = ''grpclb''"

datatype LoadBalancingPolicy = RoundRobin_policy RoundRobin | GrpcLb_policy GrpcLb

record LoadBalancingPolicy_Args =
  client_channel_factory :: "nat option"
  args :: grpc_channel_args

text \<open>
  The constructor \<^verbatim>\<open>RoundRobin::RoundRobin(args)\<close>: the members take their
  initializers, the tracker starts idle, then \<^verbatim>\<open>UpdateLocked(args)\<close>. The member
  \<^verbatim>\<open>latest_pending_subchannel_list_\<close> has no initializer and the constructor does not
  assign it: \<open>indeterminate\<close> is the value its memory happens to hold.
\<close>

definition RoundRobin_new ::
  "grpc_lb_subchannel_list option \<Rightarrow> LoadBalancingPolicy_Args \<Rightarrow> failure + RoundRobin" where
  "RoundRobin_new indeterminate a =
     (if client_channel_factory a = None then Inl AssertionFailed
      else Inr (fst (UpdateLocked grpc_connectivity_state_set grpc_lb_subchannel_list_create
                       \<lparr>subchannel_list = None, started_picking = False, shutdown = False,
                        pending_picks = [], state_tracker = GRPC_CHANNEL_IDLE,
                        last_ready_subchannel_index = 0,
                        latest_pending_subchannel_list = indeterminate\<rparr>
                       (args a))))"

definition found_balancer_address :: "grpc_channel_args \<Rightarrow> bool" where
  "found_balancer_address result =
     (case grpc_channel_args_find result GRPC_ARG_LB_ADDRESSES of
        Some (ArgPointer addresses) \<Rightarrow> list_ex is_balancer addresses
      | _ \<Rightarrow> False)"

text \<open>
  \<^verbatim>\<open>CreateLoadBalancingPolicy\<close> of either factory; \<open>Inr None\<close> is a null result. Of the
  grpclb constructor only the members of the model are kept. The first argument is the
  content of the memory that \<^verbatim>\<open>New<RoundRobin>\<close> leaves uninitialized.
\<close>

fun CreateLoadBalancingPolicy ::
  "grpc_lb_subchannel_list option \<Rightarrow> LoadBalancingPolicyFactory \<Rightarrow> LoadBalancingPolicy_Args
     \<Rightarrow> failure + LoadBalancingPolicy option" where
  "CreateLoadBalancingPolicy indeterminate RoundRobinFactory a =
     (case RoundRobin_new indeterminate a of
        Inl f \<Rightarrow> Inl f
      | Inr p \<Rightarrow> Inr (Some (RoundRobin_policy p)))"
| "CreateLoadBalancingPolicy indeterminate GrpcLbFactory a =
     (if \<not> found_balancer_address (args a) then Inr None
      else if client_channel_factory a = None then Inl AssertionFailed
      else Inr (Some (GrpcLb_policy
                        \<lparr>serverlist = None, serverlist_index = 0, rr_policy = None,
                         lb_calld = None\<rparr>)))"

text \<open>
  Modelled from the spec: the registry \<^verbatim>\<open>LoadBalancingPolicyRegistry\<close> and
  \<^verbatim>\<open>grpc_lb_policy_create\<close> are outside the sources at hand. The spec has the channel
  ``create a new LB policy'' for the extracted name; the registry is the list of the
  registered factories, and creation asks the first factory of that name.
\<close>

definition RegisterLoadBalancingPolicyFactory ::
  "LoadBalancingPolicyFactory list \<Rightarrow> LoadBalancingPolicyFactory
     \<Rightarrow> LoadBalancingPolicyFactory list" where
  "RegisterLoadBalancingPolicyFactory registry factory = registry @ [factory]"

definition grpc_lb_policy_create ::
  "grpc_lb_subchannel_list option \<Rightarrow> LoadBalancingPolicyFactory list \<Rightarrow> string
     \<Rightarrow> LoadBalancingPolicy_Args \<Rightarrow> failure + LoadBalancingPolicy option" where
  "grpc_lb_policy_create indeterminate registry lb_policy_name a =
     (case find (\<lambda>f. name f = lb_policy_name) registry of
        None \<Rightarrow> Inr None
      | Some f \<Rightarrow> CreateLoadBalancingPolicy indeterminate f a)"

text \<open>The registration functions at the end of round_robin.cc and grpclb.cc.\<close>

definition grpc_lb_policy_pick_first_init ::
  "LoadBalancingPolicyFactory list \<Rightarrow> LoadBalancingPolicyFactory list" where
  "grpc_lb_policy_pick_first_init registry =
     RegisterLoadBalancingPolicyFactory registry RoundRobinFactory"

definition grpc_lb_policy_grpclb_init ::
  "LoadBalancingPolicyFactory list \<Rightarrow> LoadBalancingPolicyFactory list" where
  "grpc_lb_policy_grpclb_init registry =
     RegisterLoadBalancingPolicyFactory registry GrpcLbFactory"

text \<open>
  The LB policy name \<^verbatim>\<open>on_resolver_result_changed_locked\<close> (client_channel.c) settles
  on for a resolver result: the name arg must be a string, a balancer address forces
  grpclb, and no name at all means \<^verbatim>\<open>pick_first\<close>.
\<close>

definition resolver_result_lb_policy_name :: "grpc_channel_args \<Rightarrow> failure + string" where
  "resolver_result_lb_policy_name result =
     (case grpc_channel_args_find result GRPC_ARG_LB_POLICY_NAME of
        Some (ArgInteger i) \<Rightarrow> Inl AssertionFailed
      | Some (ArgPointer p) \<Rightarrow> Inl AssertionFailed
      | Some (ArgString s) \<Rightarrow>
          Inr (if found_balancer_address result then ''grpclb'' else s)
      | None \<Rightarrow>
          Inr (if found_balancer_address result then ''grpclb'' else ''pick_first''))"

section \<open>Properties stated over the model, and example states\<close>

text \<open>
  The retry-buffer invariant of a call: committed, or within the limit of the channel.
\<close>

definition retry_buffer_inv :: "channel_data \<Rightarrow> call_data \<Rightarrow> bool" where
  "retry_buffer_inv chand calld =
     (retry_committed calld
      \<or> bytes_buffered_for_retry calld \<le> per_rpc_retry_buffer_size chand)"

text \<open>Everything the call caches of its send ops for a replay.\<close>

definition cached_send_data ::
  "call_data \<Rightarrow> bool \<times> grpc_metadata_batch option \<times> 32 word \<times> nat
     \<times> grpc_byte_stream list \<times> bool \<times> grpc_metadata_batch option" where
  "cached_send_data calld =
     (seen_send_initial_metadata calld, send_initial_metadata_storage calld,
      send_initial_metadata_flags calld, num_send_message_ops calld,
      send_message_caches calld, seen_send_trailing_metadata calld,
      send_trailing_metadata_storage calld)"

text \<open>
  The bytes a batch adds to the retry buffer, as a natural number: the size of its
  initial metadata and the length of its message.
\<close>

definition batch_bytes :: "cc_env \<Rightarrow> grpc_transport_stream_op_batch \<Rightarrow> nat" where
  "batch_bytes env b =
     (if send_initial_metadata b
      then unat (grpc_metadata_batch_size env (payload_send_initial_metadata b)) else 0)
     + (if send_message b then unat (length_bs (payload_send_message b)) else 0)"

text \<open>
  Slot \<open>i\<close> of the pending batches holds the batch \<open>b\<close>, not a cancellation, and the
  retry checks have not run on it.
\<close>

definition new_batch_at :: "call_data \<Rightarrow> nat \<Rightarrow> grpc_transport_stream_op_batch \<Rightarrow> bool" where
  "new_batch_at calld i b =
     (i < length (pending_batches calld)
      \<and> \<not> retry_checks_for_new_batch_done (pending_batches calld ! i)
      \<and> batch (pending_batches calld ! i) = Some b
      \<and> \<not> cancel_stream b)"

text \<open>
  An environment in which metadata copies succeed and the throttle allows retries, a
  retry policy of one attempt, and a call as \<^verbatim>\<open>cc_init_call_elem\<close> leaves it.
\<close>

definition ex_env :: cc_env where
  "ex_env =
     \<lparr>grpc_metadata_batch_size = (\<lambda>md. of_nat (32 * length md)),
      grpc_metadata_batch_copy = Some,
      record_failure_result = True,
      backoff_begin_result = 100, backoff_step_result = 200\<rparr>"

definition ex_policy :: retry_policy_params where
  "ex_policy =
     \<lparr>max_retry_attempts = 1, initial_backoff_ms = 100, max_backoff_ms = 1000,
      backoff_multiplier = 0, retryable_status_codes = Some [GRPC_STATUS_UNAVAILABLE]\<rparr>"

definition ex_params :: method_parameters where
  "ex_params =
     \<lparr>timeout = \<lparr>tv_sec = 0, tv_nsec = 0\<rparr>, wait_for_ready = WAIT_FOR_READY_UNSET,
      retry_policy = Some ex_policy\<rparr>"

definition ex_chand :: channel_data where
  "ex_chand = \<lparr>per_rpc_retry_buffer_size = DEFAULT_PER_RPC_RETRY_BUFFER_SIZE\<rparr>"

definition empty_pending :: pending_batch where
  "empty_pending =
     \<lparr>batch = None, retry_checks_for_new_batch_done = False, handler_in_flight = False\<rparr>"

definition new_call :: "method_parameters option \<Rightarrow> call_data" where
  "new_call mp =
     \<lparr>method_params = mp, subchannel_call = None, error = None,
      pending_batches = replicate 7 empty_pending, retry_committed = False,
      num_retry_attempts = 0, bytes_buffered_for_retry = 0, retry_timer = None,
      seen_send_initial_metadata = False, send_initial_metadata_storage = None,
      send_initial_metadata_flags = 0, num_send_message_ops = 0, send_message_caches = [],
      seen_send_trailing_metadata = False, send_trailing_metadata_storage = None,
      released = []\<rparr>"

definition new_retry_state :: subchannel_call_retry_state where
  "new_retry_state =
     \<lparr>started_send_message_count = 0, started_send_initial_metadata = False,
      started_send_trailing_metadata = False, started_recv_initial_metadata = False,
      started_recv_message = False, started_recv_trailing_metadata = False,
      completed_send_message_count = 0, completed_send_initial_metadata = False,
      completed_send_trailing_metadata = False, completed_recv_initial_metadata = False,
      completed_recv_message = False, completed_recv_trailing_metadata = False,
      recv_initial_metadata_ready_pending = False, recv_message_null_pending = False,
      retry_dispatched = False\<rparr>"

text \<open>
  A unary call: one batch from the surface with all six ops, in slot 0 of the pending
  batches, once a transport call exists.
\<close>

definition unary_batch :: grpc_transport_stream_op_batch where
  "unary_batch =
     \<lparr>send_initial_metadata = True, send_message = True, send_trailing_metadata = True,
      recv_initial_metadata = True, recv_message = True, recv_trailing_metadata = True,
      cancel_stream = False, collect_stats = True,
      payload_send_initial_metadata = [('':path'', ''/svc/method'')],
      payload_send_initial_metadata_flags = 0,
      payload_send_message = \<lparr>length_bs = 5\<rparr>, payload_send_trailing_metadata = []\<rparr>"

definition unary_call :: call_data where
  "unary_call =
     (new_call (Some ex_params))
       \<lparr>subchannel_call := Some 1,
        pending_batches :=
          (replicate 7 empty_pending)[0 := empty_pending\<lparr>batch := Some unary_batch\<rparr>]\<rparr>"

definition unary_outcome ::
  "failure + (grpc_transport_stream_op_batch list \<times> call_data \<times> subchannel_call_retry_state)"
where
  "unary_outcome =
     start_retriable_subchannel_batches ex_env ex_chand unary_call new_retry_state"

text \<open>
  A call whose single retry has been used, and the retry state of its second attempt
  after that attempt has already dispatched a retry.
\<close>

definition exhausted_call :: call_data where
  "exhausted_call = unary_call\<lparr>num_retry_attempts := 1\<rparr>"

definition dispatched_retry_state :: subchannel_call_retry_state where
  "dispatched_retry_state = new_retry_state\<lparr>retry_dispatched := True\<rparr>"

text \<open>
  A channel whose retry buffer holds 40 bytes; the unary batch counts 32 bytes of
  metadata and 5 of message, a batch with a message of 100 bytes goes over.
\<close>

definition small_chand :: channel_data where
  "small_chand = \<lparr>per_rpc_retry_buffer_size = 40\<rparr>"

definition big_message_call :: call_data where
  "big_message_call =
     (new_call (Some ex_params))
       \<lparr>subchannel_call := Some 1,
        pending_batches :=
          (replicate 7 empty_pending)
            [0 := empty_pending
               \<lparr>batch := Some (unary_batch\<lparr>payload_send_message := \<lparr>length_bs = 100\<rparr>\<rparr>)\<rparr>]\<rparr>"

subsection \<open>Service-config texts\<close>

text \<open>The factor that scales a fraction of \<open>n\<close> characters to nanoseconds.\<close>

definition nanos_factor :: "nat \<Rightarrow> int" where
  "nanos_factor n = 10 ^ (9 - n)"












subsection \<open>Round-robin and grpclb states\<close>

definition ready_at :: "grpc_lb_subchannel_data list \<Rightarrow> nat \<Rightarrow> bool" where
  "ready_at scs i = (curr_connectivity_state (scs ! i) = GRPC_CHANNEL_READY)"

text \<open>
  The pick with the outputs round-robin writes for the subchannel \<open>sd\<close>: its connected
  subchannel, and its user data where the caller passed a slot for it.
\<close>

definition picked :: "grpc_lb_subchannel_data \<Rightarrow> PickState \<Rightarrow> PickState" where
  "picked sd pk =
     pk\<lparr>pick_connected_subchannel := connected_subchannel sd,
        pick_user_data := (case pick_user_data pk of None \<Rightarrow> None
                           | Some old \<Rightarrow> Some (user_data sd))\<rparr>"

text \<open>The update carries no address list: the arg is missing or is no pointer.\<close>

definition no_address_list :: "grpc_channel_args \<Rightarrow> bool" where
  "no_address_list a =
     (case grpc_channel_args_find a GRPC_ARG_LB_ADDRESSES of
        Some (ArgPointer addresses) \<Rightarrow> False
      | _ \<Rightarrow> True)"

definition next_serverlist_index :: "grpc_grpclb_server list \<Rightarrow> nat \<Rightarrow> nat" where
  "next_serverlist_index servers i = (if i + 1 = length servers then 0 else i + 1)"

text \<open>
  Three subchannels, the first and the third ready, the cursor on the first; a pick
  with a slot for user data.
\<close>

definition ex_subchannel ::
  "nat \<Rightarrow> grpc_connectivity_state \<Rightarrow> nat option \<Rightarrow> string \<Rightarrow> grpc_lb_subchannel_data" where
  "ex_subchannel i st conn token =
     \<lparr>subchannel = Some i, connected_subchannel = conn, curr_connectivity_state = st,
      user_data = Some token\<rparr>"

definition ex_list :: grpc_lb_subchannel_list where
  "ex_list =
     \<lparr>subchannels =
        [ex_subchannel 0 GRPC_CHANNEL_READY (Some 10) ''token-a'',
         ex_subchannel 1 GRPC_CHANNEL_TRANSIENT_FAILURE None ''token-b'',
         ex_subchannel 2 GRPC_CHANNEL_READY (Some 12) ''token-c''],
      shutting_down = False\<rparr>"

definition ex_rr :: RoundRobin where
  "ex_rr =
     \<lparr>subchannel_list = Some ex_list, started_picking = True, shutdown = False,
      pending_picks = [], state_tracker = GRPC_CHANNEL_READY,
      last_ready_subchannel_index = 0, latest_pending_subchannel_list = None\<rparr>"

definition ex_pick :: PickState where
  "ex_pick =
     \<lparr>initial_metadata_flags = 0, pick_connected_subchannel = None,
      pick_user_data = Some None\<rparr>"

text \<open>An update whose address list is empty, and one without the address arg.\<close>

definition empty_update :: grpc_channel_args where
  "empty_update = [(GRPC_ARG_LB_ADDRESSES, ArgPointer [])]"

definition missing_update :: grpc_channel_args where
  "missing_update = []"

text \<open>
  A grpclb policy with the server list of the spec's drop scenario, at its first entry,
  with client stats that have counted nothing; and a pending pick.
\<close>

definition ex_stats :: grpc_grpclb_client_stats where
  "ex_stats = \<lparr>drop_token_counts = (\<lambda>token. 0)\<rparr>"

definition ex_glb :: GrpcLb where
  "ex_glb =
     \<lparr>serverlist =
        Some [\<lparr>server_address = ''a:1'', load_balance_token = ''t1'', drop = True\<rparr>,
              \<lparr>server_address = ''x:1'', load_balance_token = ''t2'', drop = False\<rparr>],
      serverlist_index = 0,
      rr_policy = Some ex_rr,
      lb_calld = Some \<lparr>client_stats = Some ex_stats\<rparr>\<rparr>"

text \<open>The same policy at its second entry, which is no drop.\<close>

definition ex_glb_second :: GrpcLb where
  "ex_glb_second = ex_glb\<lparr>serverlist_index := 1\<rparr>"

text \<open>
  The same policy when the balancer asked for no load reports: the balancer call has
  no client stats.
\<close>

definition ex_glb_quiet :: GrpcLb where
  "ex_glb_quiet = ex_glb\<lparr>lb_calld := Some \<lparr>client_stats = None\<rparr>\<rparr>"

text \<open>
  The drop count the policy keeps for a token: none without a balancer call or without
  client stats.
\<close>

definition dropped_calls :: "GrpcLb \<Rightarrow> string \<Rightarrow> nat option" where
  "dropped_calls glb token =
     (case lb_calld glb of
        None \<Rightarrow> None
      | Some calld \<Rightarrow>
          (case client_stats calld of
             None \<Rightarrow> None
           | Some stats \<Rightarrow> Some (drop_token_counts stats token)))"

definition ex_pending_pick :: PendingPick where
  "ex_pending_pick =
     \<lparr>pick = \<lparr>initial_metadata_flags = 0, pick_connected_subchannel = None,
              pick_user_data = None\<rparr>,
      lb_token = None, holds_client_stats = False\<rparr>"

subsection \<open>Health-check states\<close>

definition in_use :: "HealthCheckClient \<Rightarrow> CallState \<Rightarrow> bool" where
  "in_use c self = (call_state c = Some (call_id self))"

definition starts_call :: "health_effect list \<Rightarrow> bool" where
  "starts_call effs =
     list_ex (\<lambda>e. case e of CallStateStartCall n \<Rightarrow> True | _ \<Rightarrow> False) effs"

definition arms_timer :: "health_effect list \<Rightarrow> bool" where
  "arms_timer effs =
     list_ex (\<lambda>e. case e of TimerInitOnRetryTimer t \<Rightarrow> True | _ \<Rightarrow> False) effs"

text \<open>
  A client whose first call (id 0) is in use and has reported health; a back-off that
  answers the initial delay on top of a clock at 5000 ms.
\<close>

definition ex_health_client :: HealthCheckClient where
  "ex_health_client =
     \<lparr>health_state = GRPC_CHANNEL_READY, notify_state = None, health_shutting_down = False,
      call_state = Some 0, calls_created = 1, retry_timer_callback_pending = False,
      health_retry_timer = None,
      retry_backoff = \<lparr>options = health_check_backoff_options, attempts = 0\<rparr>\<rparr>"

definition ex_attempt_time :: "BackOff_Options \<Rightarrow> nat \<Rightarrow> int" where
  "ex_attempt_time opts n = 5000 + initial_backoff opts"

definition ex_health_outcome ::
  "bool \<Rightarrow> failure + (HealthCheckClient \<times> health_effect list)" where
  "ex_health_outcome seen =
     RecvTrailingMetadataReady ex_attempt_time ex_health_client
       \<lparr>call_id = 0, seen_response = seen\<rparr> (Some GRPC_STATUS_UNAVAILABLE) None"

subsection \<open>Resolver results\<close>

text \<open>
  A resolver result with one backend address and no policy name, the args the channel
  builds from it, and the registry after both registration functions.
\<close>

definition ex_result :: grpc_channel_args where
  "ex_result =
     [(GRPC_ARG_LB_ADDRESSES,
       ArgPointer [\<lparr>address = ''10.0.0.1:443'', is_balancer = False, balancer_name = [],
                    address_user_data = None\<rparr>])]"

definition ex_lb_args :: LoadBalancingPolicy_Args where
  "ex_lb_args = \<lparr>client_channel_factory = Some 1, args = ex_result\<rparr>"

definition ex_registry :: "LoadBalancingPolicyFactory list" where
  "ex_registry = grpc_lb_policy_grpclb_init (grpc_lb_policy_pick_first_init [])"

section \<open>Retries: attempts, buffer limit and op order\<close>

lemma wrap_int_id: "- (2 ^ 31) \<le> x \<Longrightarrow> x < 2 ^ 31 \<Longrightarrow> wrap_int x = x"
  by (simp add: wrap_int_def)

lemma upt_pending: "[0..<MAX_PENDING_BATCHES] = [0, 1, 2, 3, 4, 5, 6]"
  by (simp add: MAX_PENDING_BATCHES_def upt_rec)

subsection \<open>What the caching steps leave alone\<close>

lemma retry_committed_fn_keeps [simp]:
  "num_retry_attempts (retry_committed_fn c) = num_retry_attempts c"
  "method_params (retry_committed_fn c) = method_params c"
  "bytes_buffered_for_retry (retry_committed_fn c) = bytes_buffered_for_retry c"
  "retry_committed (retry_committed_fn c)"
  by (simp_all add: retry_committed_fn_def)

lemma cache_send_message_keeps [simp]:
  "num_retry_attempts (cache_send_message b c) = num_retry_attempts c"
  "method_params (cache_send_message b c) = method_params c"
  "bytes_buffered_for_retry (cache_send_message b c) = bytes_buffered_for_retry c"
  "retry_committed (cache_send_message b c) = retry_committed c"
  by (simp_all add: cache_send_message_def)

lemma cache_send_trailing_metadata_keeps:
  "cache_send_trailing_metadata env b c = Inr c' \<Longrightarrow>
     num_retry_attempts c' = num_retry_attempts c \<and> method_params c' = method_params c
     \<and> bytes_buffered_for_retry c' = bytes_buffered_for_retry c
     \<and> (retry_committed c \<longrightarrow> retry_committed c')"
  by (auto simp: cache_send_trailing_metadata_def Let_def split: if_splits option.splits)

lemma cache_send_ops_keeps:
  "cache_send_ops env b c = Inr c' \<Longrightarrow>
     num_retry_attempts c' = num_retry_attempts c \<and> method_params c' = method_params c
     \<and> bytes_buffered_for_retry c' = bytes_buffered_for_retry c
     \<and> (retry_committed c \<longrightarrow> retry_committed c')"
  by (auto simp: cache_send_ops_def Let_def split: if_splits option.splits
           dest!: cache_send_trailing_metadata_keeps)

lemma retry_checks_for_new_batch_attempts:
  "retry_checks_for_new_batch env chand c i = Inr c' \<Longrightarrow>
     num_retry_attempts c' = num_retry_attempts c \<and> method_params c' = method_params c"
  by (auto simp: retry_checks_for_new_batch_def Let_def set_pending_def
           split: if_splits option.splits dest!: cache_send_ops_keeps)

lemma retry_checks_all_attempts:
  "retry_checks_all env chand js c = Inr c' \<Longrightarrow>
     num_retry_attempts c' = num_retry_attempts c \<and> method_params c' = method_params c"
proof (induction js arbitrary: c)
  case Nil
  then show ?case by simp
next
  case (Cons i js)
  then show ?case
    by (auto split: if_splits sum.splits dest!: retry_checks_for_new_batch_attempts)
qed

lemma start_retriable_subchannel_batches_attempts:
  "start_retriable_subchannel_batches env chand c rs = Inr (bs, c', rs') \<Longrightarrow>
     num_retry_attempts c' = num_retry_attempts c \<and> method_params c' = method_params c"
  by (auto simp: start_retriable_subchannel_batches_def
           split: sum.splits prod.splits if_splits dest!: retry_checks_all_attempts)

subsection \<open>The number of retry attempts\<close>

lemma maybe_retry_returns:
  "method_params calld = Some mp \<Longrightarrow> retry_policy mp = Some rp \<Longrightarrow>
     \<exists>r calld' rs' effs. maybe_retry env calld rs status = Inr (r, calld', rs', effs)"
  by (auto simp: maybe_retry_def Let_def)

lemma maybe_retry_step:
  assumes run: "maybe_retry env calld rs status = Inr (r, calld', rs', effs)"
    and mp: "method_params calld = Some mp" and rp: "retry_policy mp = Some rp"
    and lo: "0 \<le> num_retry_attempts calld"
    and inv: "num_retry_attempts calld \<le> max_retry_attempts rp"
    and hi: "max_retry_attempts rp \<le> INT_MAX"
  shows "method_params calld' = method_params calld
       \<and> 0 \<le> num_retry_attempts calld'
       \<and> num_retry_attempts calld' \<le> max_retry_attempts rp
       \<and> (num_retry_attempts calld' = num_retry_attempts calld
          \<or> r \<and> num_retry_attempts calld' = num_retry_attempts calld + 1)
       \<and> (num_retry_attempts calld = max_retry_attempts rp \<longrightarrow>
            calld' = calld \<and> rs' = rs \<and> (\<forall>t. TimerInitStartPick t \<notin> set effs)
            \<and> r = (case rs of None \<Rightarrow> False | Some s \<Rightarrow> retry_dispatched s))"
proof -
  have w: "num_retry_attempts calld \<noteq> max_retry_attempts rp \<Longrightarrow>
           wrap_int (num_retry_attempts calld + 1) = num_retry_attempts calld + 1"
    using inv lo hi by (intro wrap_int_id) (auto simp: INT_MAX_def)
  show ?thesis
    using run mp rp inv lo w
    by (auto simp: maybe_retry_def Let_def split: if_splits option.splits)
qed

text \<open>
  Claim C2, as amended. For a call with a retry policy \<open>rp\<close> whose
  \<open>num_retry_attempts\<close> is between 0 and \<open>max_retry_attempts rp\<close>: \<open>maybe_retry\<close>
  returns, keeps the count within that range, and changes it only by adding one on a
  run that returns true; the retry checks for a new batch, the start of the retriable
  batches and the commit leave the count alone. When the count equals
  \<open>max_retry_attempts rp\<close>, \<open>maybe_retry\<close> changes neither the call nor the retry
  state and arms no timer, and it returns the \<open>retry_dispatched\<close> flag of the attempt:
  false, unless this attempt has already dispatched a retry.
\<close>

theorem maybe_retry_attempts_bounded:
  assumes mp: "method_params calld = Some mp" and rp: "retry_policy mp = Some rp"
    and lo: "0 \<le> num_retry_attempts calld"
    and inv: "num_retry_attempts calld \<le> max_retry_attempts rp"
    and hi: "max_retry_attempts rp \<le> INT_MAX"
  shows "(\<exists>r calld' rs' effs.
            maybe_retry env calld rs status = Inr (r, calld', rs', effs)
            \<and> method_params calld' = method_params calld
            \<and> 0 \<le> num_retry_attempts calld'
            \<and> num_retry_attempts calld' \<le> max_retry_attempts rp
            \<and> (num_retry_attempts calld' = num_retry_attempts calld
               \<or> r \<and> num_retry_attempts calld' = num_retry_attempts calld + 1)
            \<and> (num_retry_attempts calld = max_retry_attempts rp \<longrightarrow>
                 calld' = calld \<and> rs' = rs \<and> (\<forall>t. TimerInitStartPick t \<notin> set effs)
                 \<and> r = (case rs of None \<Rightarrow> False | Some s \<Rightarrow> retry_dispatched s)))
       \<and> (\<forall>c'. retry_checks_for_new_batch env chand calld i = Inr c' \<longrightarrow>
                 num_retry_attempts c' = num_retry_attempts calld)
       \<and> (\<forall>bs c' rs'. start_retriable_subchannel_batches env chand calld rs0 = Inr (bs, c', rs')
                 \<longrightarrow> num_retry_attempts c' = num_retry_attempts calld)
       \<and> num_retry_attempts (retry_committed_fn calld) = num_retry_attempts calld"
proof -
  obtain r calld' rs' effs where
    run: "maybe_retry env calld rs status = Inr (r, calld', rs', effs)"
    using maybe_retry_returns [OF mp rp] by blast
  from maybe_retry_step [OF run mp rp lo inv hi] run
  have first: "\<exists>r calld' rs' effs.
            maybe_retry env calld rs status = Inr (r, calld', rs', effs)
            \<and> method_params calld' = method_params calld
            \<and> 0 \<le> num_retry_attempts calld'
            \<and> num_retry_attempts calld' \<le> max_retry_attempts rp
            \<and> (num_retry_attempts calld' = num_retry_attempts calld
               \<or> r \<and> num_retry_attempts calld' = num_retry_attempts calld + 1)
            \<and> (num_retry_attempts calld = max_retry_attempts rp \<longrightarrow>
                 calld' = calld \<and> rs' = rs \<and> (\<forall>t. TimerInitStartPick t \<notin> set effs)
                 \<and> r = (case rs of None \<Rightarrow> False | Some s \<Rightarrow> retry_dispatched s))"
    by blast
  have second: "\<forall>c'. retry_checks_for_new_batch env chand calld i = Inr c' \<longrightarrow>
                 num_retry_attempts c' = num_retry_attempts calld"
    using retry_checks_for_new_batch_attempts by blast
  have third: "\<forall>bs c' rs'.
      start_retriable_subchannel_batches env chand calld rs0 = Inr (bs, c', rs')
        \<longrightarrow> num_retry_attempts c' = num_retry_attempts calld"
    using start_retriable_subchannel_batches_attempts by blast
  from first second third show ?thesis by simp
qed

text \<open>
  The theorem at the unary call on its first failure with \<^verbatim>\<open>UNAVAILABLE\<close>: the retry
  is scheduled and the count goes from 0 to the maximum 1.
\<close>

theorem maybe_retry_attempts_bounded_witness:
  "method_params unary_call = Some ex_params \<and> retry_policy ex_params = Some ex_policy
   \<and> 0 \<le> num_retry_attempts unary_call
   \<and> num_retry_attempts unary_call \<le> max_retry_attempts ex_policy
   \<and> max_retry_attempts ex_policy \<le> INT_MAX
   \<and> maybe_retry ex_env unary_call (Some new_retry_state) GRPC_STATUS_UNAVAILABLE
       = Inr (True,
              unary_call\<lparr>subchannel_call := None, retry_timer := Some 100,
                         num_retry_attempts := 1\<rparr>,
              Some dispatched_retry_state,
              [ThrottleRecordFailure, SubchannelCallUnref 1,
               BackoffInit 100 0 RETRY_BACKOFF_JITTER 100 1000, BackoffBegin,
               TimerInitStartPick 100])
   \<and> (\<exists>r calld' rs' effs.
         maybe_retry ex_env unary_call (Some new_retry_state) GRPC_STATUS_UNAVAILABLE
           = Inr (r, calld', rs', effs)
         \<and> num_retry_attempts calld' \<le> max_retry_attempts ex_policy)"
proof -
  have mp: "method_params unary_call = Some ex_params"
    by (simp add: unary_call_def new_call_def)
  have rp: "retry_policy ex_params = Some ex_policy"
    by (simp add: ex_params_def)
  have lo: "0 \<le> num_retry_attempts unary_call"
    and inv: "num_retry_attempts unary_call \<le> max_retry_attempts ex_policy"
    by (simp_all add: unary_call_def new_call_def ex_policy_def)
  have hi: "max_retry_attempts ex_policy \<le> INT_MAX"
    by (simp add: ex_policy_def INT_MAX_def)
  have run: "maybe_retry ex_env unary_call (Some new_retry_state) GRPC_STATUS_UNAVAILABLE
       = Inr (True,
              unary_call\<lparr>subchannel_call := None, retry_timer := Some 100,
                         num_retry_attempts := 1\<rparr>,
              Some dispatched_retry_state,
              [ThrottleRecordFailure, SubchannelCallUnref 1,
               BackoffInit 100 0 RETRY_BACKOFF_JITTER 100 1000, BackoffBegin,
               TimerInitStartPick 100])"
    by (simp add: maybe_retry_def unary_call_def new_call_def ex_params_def ex_policy_def
        new_retry_state_def dispatched_retry_state_def is_status_code_in_list_def
        ex_env_def wrap_int_def Let_def)
  from maybe_retry_attempts_bounded [OF mp rp lo inv hi, of ex_env "Some new_retry_state"
      GRPC_STATUS_UNAVAILABLE]
  have "\<exists>r calld' rs' effs.
         maybe_retry ex_env unary_call (Some new_retry_state) GRPC_STATUS_UNAVAILABLE
           = Inr (r, calld', rs', effs)
         \<and> num_retry_attempts calld' \<le> max_retry_attempts ex_policy"
    by blast
  with mp rp lo inv hi run show ?thesis by simp
qed

text \<open>
  Against the claim as stated: with the count at its maximum, a second callback of an
  attempt that has dispatched a retry gets true from \<open>maybe_retry\<close>.
\<close>

theorem maybe_retry_true_at_max_attempts:
  "method_params exhausted_call = Some ex_params \<and> retry_policy ex_params = Some ex_policy
   \<and> num_retry_attempts exhausted_call = max_retry_attempts ex_policy
   \<and> maybe_retry ex_env exhausted_call (Some dispatched_retry_state) GRPC_STATUS_UNAVAILABLE
       = Inr (True, exhausted_call, Some dispatched_retry_state, [])"
  by (simp add: maybe_retry_def exhausted_call_def unary_call_def new_call_def ex_params_def
      ex_policy_def dispatched_retry_state_def new_retry_state_def)

subsection \<open>The retry buffer limit\<close>

lemma retry_checks_for_new_batch_inv:
  assumes "retry_checks_for_new_batch env chand c i = Inr c'"
    and "retry_buffer_inv chand c"
  shows "retry_buffer_inv chand c'"
  using assms
  by (auto simp: retry_checks_for_new_batch_def retry_buffer_inv_def Let_def set_pending_def
                 not_less
           split: if_splits option.splits dest!: cache_send_ops_keeps)

lemma retry_checks_all_inv:
  "retry_checks_all env chand js c = Inr c' \<Longrightarrow> retry_buffer_inv chand c
     \<Longrightarrow> retry_buffer_inv chand c'"
proof (induction js arbitrary: c)
  case Nil
  then show ?case by simp
next
  case (Cons i js)
  then show ?case
    by (auto split: if_splits sum.splits dest: retry_checks_for_new_batch_inv)
qed

lemma start_retriable_subchannel_batches_inv:
  "start_retriable_subchannel_batches env chand c rs = Inr (bs, c', rs')
     \<Longrightarrow> retry_buffer_inv chand c \<Longrightarrow> retry_buffer_inv chand c'"
  by (auto simp: start_retriable_subchannel_batches_def
           split: sum.splits prod.splits if_splits dest: retry_checks_all_inv)

lemma maybe_retry_inv:
  "maybe_retry env c rs st = Inr (r, c', rs', effs)
     \<Longrightarrow> retry_buffer_inv chand c \<Longrightarrow> retry_buffer_inv chand c'"
  by (auto simp: maybe_retry_def retry_buffer_inv_def Let_def split: if_splits option.splits)

lemma unat_ucast_32_64: "unat (ucast (w :: 32 word) :: 64 word) = unat w"
proof -
  have "unat w < 2 ^ 32"
    using unsigned_less [of w] by simp
  then have "unat w < 2 ^ 64"
    by (rule less_le_trans) simp
  then show ?thesis
    by (simp add: unsigned_ucast_eq take_bit_nat_eq_self)
qed

lemma unat_count_bytes:
  assumes "unat n + batch_bytes env b < 2 ^ 64"
  shows "unat (count_bytes env b n) = unat n + batch_bytes env b"
  using assms
  by (auto simp: count_bytes_def batch_bytes_def Let_def unat_ucast_32_64 unat_word_ariths
           split: if_splits)

lemma retry_checks_commit_when_over:
  assumes i: "i < length (pending_batches calld)"
    and fresh: "\<not> retry_checks_for_new_batch_done (pending_batches calld ! i)"
    and b: "batch (pending_batches calld ! i) = Some b"
    and nc: "\<not> cancel_stream b"
    and cfg: "retries_configured calld" and uncommitted: "\<not> retry_committed calld"
    and over: "unat (per_rpc_retry_buffer_size chand)
                 < unat (bytes_buffered_for_retry calld) + batch_bytes env b"
    and nowrap: "unat (bytes_buffered_for_retry calld) + batch_bytes env b < 2 ^ 64"
  shows "\<exists>c'. retry_checks_for_new_batch env chand calld i = Inr c'
              \<and> retry_committed c' \<and> cached_send_data c' = cached_send_data calld"
proof -
  have "unat (count_bytes env b (bytes_buffered_for_retry calld))
          > unat (per_rpc_retry_buffer_size chand)"
    using over unat_count_bytes [OF nowrap] by simp
  then have gt: "count_bytes env b (bytes_buffered_for_retry calld)
                   > per_rpc_retry_buffer_size chand"
    by (simp add: word_less_nat_alt)
  show ?thesis
    using i fresh b nc cfg uncommitted gt
    by (simp add: retry_checks_for_new_batch_def Let_def set_pending_def
                  retries_configured_def cached_send_data_def retry_committed_fn_def)
qed

lemma retry_checks_count_when_within:
  assumes i: "i < length (pending_batches calld)"
    and fresh: "\<not> retry_checks_for_new_batch_done (pending_batches calld ! i)"
    and b: "batch (pending_batches calld ! i) = Some b"
    and nc: "\<not> cancel_stream b"
    and cfg: "retries_configured calld" and uncommitted: "\<not> retry_committed calld"
    and within: "unat (bytes_buffered_for_retry calld) + batch_bytes env b
                   \<le> unat (per_rpc_retry_buffer_size chand)"
    and run: "retry_checks_for_new_batch env chand calld i = Inr c'"
  shows "unat (bytes_buffered_for_retry c')
           = unat (bytes_buffered_for_retry calld) + batch_bytes env b"
proof -
  have lim: "unat (per_rpc_retry_buffer_size chand) < 2 ^ 64"
    using unsigned_less [of "per_rpc_retry_buffer_size chand"] by simp
  have nowrap: "unat (bytes_buffered_for_retry calld) + batch_bytes env b < 2 ^ 64"
    using within lim by linarith
  have "\<not> count_bytes env b (bytes_buffered_for_retry calld)
                   > per_rpc_retry_buffer_size chand"
    using within unat_count_bytes [OF nowrap] by (simp add: word_less_nat_alt)
  then show ?thesis
    using i fresh b nc cfg uncommitted run unat_count_bytes [OF nowrap]
    by (auto simp: retry_checks_for_new_batch_def Let_def set_pending_def
                   retries_configured_def
             split: option.splits dest!: cache_send_ops_keeps)
qed

text \<open>
  Claim C1. The invariant ``committed, or \<open>bytes_buffered_for_retry\<close> at most
  \<open>per_rpc_retry_buffer_size\<close>'' holds of a call with nothing buffered and is kept by
  the retry checks for a new batch, by the start of the retriable batches and by
  \<open>maybe_retry\<close>. For a batch in slot \<open>i\<close> that the checks have not seen
  (\<open>new_batch_at\<close>), on a call with a retry policy and not committed: while the bytes buffered so far plus the
  bytes of the batch stay within the limit, the checks add exactly these bytes; the
  first time the sum exceeds the limit, the checks return with the call committed and
  with the cached send data as it was. The sizes are \<^verbatim>\<open>size_t\<close> values, and the sum is
  taken to fit in one. The default limit is \<open>2 ^ 30\<close>.
\<close>

theorem retry_buffer_limit:
  assumes inv: "retry_buffer_inv chand calld"
  shows "(\<forall>c'. retry_checks_for_new_batch env chand calld i = Inr c'
             \<longrightarrow> retry_buffer_inv chand c')
       \<and> (\<forall>bs c' rs'. start_retriable_subchannel_batches env chand calld rs = Inr (bs, c', rs')
             \<longrightarrow> retry_buffer_inv chand c')
       \<and> (\<forall>r c' rs' effs. maybe_retry env calld rs1 status = Inr (r, c', rs', effs)
             \<longrightarrow> retry_buffer_inv chand c')
       \<and> (new_batch_at calld i b \<and> retries_configured calld \<and> \<not> retry_committed calld
           \<and> unat (bytes_buffered_for_retry calld) + batch_bytes env b < 2 ^ 64
           \<and> unat (per_rpc_retry_buffer_size chand)
               < unat (bytes_buffered_for_retry calld) + batch_bytes env b
           \<longrightarrow> (\<exists>c'. retry_checks_for_new_batch env chand calld i = Inr c'
                      \<and> retry_committed c'
                      \<and> cached_send_data c' = cached_send_data calld))
       \<and> (new_batch_at calld i b \<and> retries_configured calld \<and> \<not> retry_committed calld
           \<and> unat (bytes_buffered_for_retry calld) + batch_bytes env b
               \<le> unat (per_rpc_retry_buffer_size chand)
           \<longrightarrow> (\<forall>c'. retry_checks_for_new_batch env chand calld i = Inr c'
                      \<longrightarrow> unat (bytes_buffered_for_retry c')
                            = unat (bytes_buffered_for_retry calld) + batch_bytes env b))
       \<and> (\<forall>c. bytes_buffered_for_retry c = 0 \<longrightarrow> retry_buffer_inv chand c)
       \<and> unat DEFAULT_PER_RPC_RETRY_BUFFER_SIZE = 2 ^ 30"
proof -
  have p1: "\<forall>c'. retry_checks_for_new_batch env chand calld i = Inr c'
             \<longrightarrow> retry_buffer_inv chand c'"
    using retry_checks_for_new_batch_inv inv by blast
  have p2: "\<forall>bs c' rs'.
      start_retriable_subchannel_batches env chand calld rs = Inr (bs, c', rs')
        \<longrightarrow> retry_buffer_inv chand c'"
    using start_retriable_subchannel_batches_inv inv by blast
  have p3: "\<forall>r c' rs' effs. maybe_retry env calld rs1 status = Inr (r, c', rs', effs)
             \<longrightarrow> retry_buffer_inv chand c'"
    using maybe_retry_inv inv by blast
  have p4: "new_batch_at calld i b \<and> retries_configured calld \<and> \<not> retry_committed calld
           \<and> unat (bytes_buffered_for_retry calld) + batch_bytes env b < 2 ^ 64
           \<and> unat (per_rpc_retry_buffer_size chand)
               < unat (bytes_buffered_for_retry calld) + batch_bytes env b
           \<longrightarrow> (\<exists>c'. retry_checks_for_new_batch env chand calld i = Inr c'
                      \<and> retry_committed c'
                      \<and> cached_send_data c' = cached_send_data calld)"
    using retry_checks_commit_when_over [of i calld b chand env]
    by (simp add: new_batch_at_def)
  have p5: "new_batch_at calld i b \<and> retries_configured calld \<and> \<not> retry_committed calld
           \<and> unat (bytes_buffered_for_retry calld) + batch_bytes env b
               \<le> unat (per_rpc_retry_buffer_size chand)
           \<longrightarrow> (\<forall>c'. retry_checks_for_new_batch env chand calld i = Inr c'
                      \<longrightarrow> unat (bytes_buffered_for_retry c')
                            = unat (bytes_buffered_for_retry calld) + batch_bytes env b)"
    using retry_checks_count_when_within [of i calld b env chand]
    by (simp add: new_batch_at_def)
  have p6: "\<forall>c. bytes_buffered_for_retry c = 0 \<longrightarrow> retry_buffer_inv chand c"
    by (simp add: retry_buffer_inv_def)
  have p7: "unat DEFAULT_PER_RPC_RETRY_BUFFER_SIZE = 2 ^ 30"
    by (simp add: DEFAULT_PER_RPC_RETRY_BUFFER_SIZE_def)
  from p1 p2 p3 p4 p5 p6 p7 show ?thesis by blast
qed

text \<open>
  The theorem at a channel with a 40-byte retry buffer and a first batch of 32 bytes of
  metadata and a 100-byte message: the call is committed and nothing is cached.
\<close>

theorem retry_buffer_limit_witness:
  "retry_buffer_inv small_chand big_message_call
   \<and> new_batch_at big_message_call 0
       (unary_batch\<lparr>payload_send_message := \<lparr>length_bs = 100\<rparr>\<rparr>)
   \<and> retries_configured big_message_call \<and> \<not> retry_committed big_message_call
   \<and> unat (bytes_buffered_for_retry big_message_call)
       + batch_bytes ex_env (unary_batch\<lparr>payload_send_message := \<lparr>length_bs = 100\<rparr>\<rparr>) = 132
   \<and> unat (per_rpc_retry_buffer_size small_chand) = 40
   \<and> (\<exists>c'. retry_checks_for_new_batch ex_env small_chand big_message_call 0 = Inr c'
            \<and> retry_buffer_inv small_chand c'
            \<and> retry_committed c'
            \<and> cached_send_data c' = (False, None, 0, 0, [], False, None))"
proof -
  let ?b = "unary_batch\<lparr>payload_send_message := \<lparr>length_bs = 100\<rparr>\<rparr>"
  have inv: "retry_buffer_inv small_chand big_message_call"
    by (simp add: retry_buffer_inv_def big_message_call_def new_call_def)
  have new: "new_batch_at big_message_call 0 ?b"
    by (simp add: new_batch_at_def big_message_call_def new_call_def empty_pending_def
        unary_batch_def)
  have cfg: "retries_configured big_message_call"
    by (simp add: retries_configured_def big_message_call_def new_call_def ex_params_def)
  have uncommitted: "\<not> retry_committed big_message_call"
    by (simp add: big_message_call_def new_call_def)
  have bytes: "unat (bytes_buffered_for_retry big_message_call) + batch_bytes ex_env ?b = 132"
    by (simp add: big_message_call_def new_call_def batch_bytes_def unary_batch_def ex_env_def)
  have lim: "unat (per_rpc_retry_buffer_size small_chand) = 40"
    by (simp add: small_chand_def)
  have cached: "cached_send_data big_message_call = (False, None, 0, 0, [], False, None)"
    by (simp add: cached_send_data_def big_message_call_def new_call_def)
  note inst = retry_buffer_limit [OF inv, where env = ex_env and i = 0 and b = ?b and rs = new_retry_state
      and ?rs1.0 = None and status = GRPC_STATUS_OK]
  from inst new cfg uncommitted bytes lim cached
  obtain c' where
    run: "retry_checks_for_new_batch ex_env small_chand big_message_call 0 = Inr c'"
    and c': "retry_committed c'" "cached_send_data c' = (False, None, 0, 0, [], False, None)"
    by auto
  from inst run have "retry_buffer_inv small_chand c'"
    by blast
  with run c'
  have "\<exists>c'. retry_checks_for_new_batch ex_env small_chand big_message_call 0 = Inr c'
            \<and> retry_buffer_inv small_chand c'
            \<and> retry_committed c'
            \<and> cached_send_data c' = (False, None, 0, 0, [], False, None)"
    by blast
  with inv new cfg uncommitted bytes lim show ?thesis by simp
qed

subsection \<open>Trailing metadata after the messages\<close>

lemma recv_batch_no_send [simp]:
  "\<not> send_trailing_metadata (recv_batch a b c)"
  by (simp add: recv_batch_def empty_batch_def)

lemma build_recv_batches_send_ops:
  "build_recv_batches ps (rs, bs) = Inr (rs', bs') \<Longrightarrow>
     started_send_message_count rs' = started_send_message_count rs
     \<and> (\<forall>b \<in> set bs'. send_trailing_metadata b \<longrightarrow> b \<in> set bs)"
proof (induction ps arbitrary: rs bs)
  case Nil
  then show ?case by simp
next
  case (Cons p ps)
  show ?case
  proof (cases "batch p")
    case None
    with Cons show ?thesis by simp
  next
    case (Some b)
    let ?rim = "recv_initial_metadata b \<and> \<not> started_recv_initial_metadata rs"
    let ?rm = "recv_message b \<and> \<not> started_recv_message rs"
    let ?rtm = "recv_trailing_metadata b \<and> \<not> started_recv_trailing_metadata rs"
    show ?thesis
    proof (cases "\<not> ?rim \<and> \<not> ?rm \<and> \<not> ?rtm")
      case True
      with Cons Some show ?thesis by (simp add: Let_def)
    next
      case False
      with Cons.prems Some obtain rs1 where
        rec: "build_recv_batches ps (rs1, bs @ [recv_batch ?rim ?rm ?rtm]) = Inr (rs', bs')"
        and cnt: "started_send_message_count rs1 = started_send_message_count rs"
        by (auto simp: Let_def split: if_splits)
      from Cons.IH [OF rec] cnt show ?thesis by auto
    qed
  qed
qed

lemma send_op_initial_metadata_flag:
  "send_op_initial_metadata env calld (None, rs) = Inr (sb, rs1) \<Longrightarrow>
     \<not> send_trailing_metadata (the_batch sb)"
  by (auto simp: send_op_initial_metadata_def the_batch_def empty_batch_def
           split: if_splits option.splits)

lemma send_op_message_flag:
  "send_op_message calld (sb, rs) = Inr (sb', rs') \<Longrightarrow>
     send_trailing_metadata (the_batch sb') = send_trailing_metadata (the_batch sb)"
  by (auto simp: send_op_message_def the_batch_def Let_def split: if_splits)

lemma send_op_trailing_metadata_flag:
  "send_op_trailing_metadata env calld (sb, rs) = Inr (sb', rs') \<Longrightarrow>
     \<not> send_trailing_metadata (the_batch sb) \<Longrightarrow>
     send_trailing_metadata (the_batch sb') \<Longrightarrow>
     seen_send_trailing_metadata calld
     \<and> started_send_message_count rs' = num_send_message_ops calld"
  by (auto simp: send_op_trailing_metadata_def split: if_splits option.splits)

lemma build_send_batch_trailing:
  assumes "build_send_batch env calld rs = Inr (sb, rs')"
    and "send_trailing_metadata (the_batch sb)"
  shows "seen_send_trailing_metadata calld
       \<and> started_send_message_count rs' = num_send_message_ops calld"
proof -
  from assms(1) obtain sb1 rs1 sb2 rs2 where
    s1: "send_op_initial_metadata env calld (None, rs) = Inr (sb1, rs1)" and
    s2: "send_op_message calld (sb1, rs1) = Inr (sb2, rs2)" and
    s3: "send_op_trailing_metadata env calld (sb2, rs2) = Inr (sb, rs')"
    by (auto simp: build_send_batch_def split: sum.splits)
  have "\<not> send_trailing_metadata (the_batch sb2)"
    using send_op_initial_metadata_flag [OF s1] send_op_message_flag [OF s2] by simp
  then show ?thesis
    using send_op_trailing_metadata_flag [OF s3] assms(2) by simp
qed

text \<open>
  Claim C3, as amended. Whenever \<open>start_retriable_subchannel_batches\<close> hands a batch
  with \<open>send_trailing_metadata\<close> to the transport call, the call has seen the
  trailing metadata, and every cached message has been started on this attempt:
  \<open>started_send_message_count\<close> equals \<open>num_send_message_ops\<close>.
\<close>

theorem send_trailing_metadata_after_messages_started:
  assumes run: "start_retriable_subchannel_batches env chand calld rs
                  = Inr (batches, calld', rs')"
    and b: "b \<in> set batches" and t: "send_trailing_metadata b"
  shows "seen_send_trailing_metadata calld'
       \<and> started_send_message_count rs' = num_send_message_ops calld'"
proof -
  from run obtain sb rs1 where
    sb: "build_send_batch env calld' rs = Inr (sb, rs1)" and
    rb: "build_recv_batches (pending_batches calld')
           (rs1, (case sb of None \<Rightarrow> [] | Some x \<Rightarrow> [x])) = Inr (rs', batches)"
    by (auto simp: start_retriable_subchannel_batches_def
             split: sum.splits prod.splits if_splits)
  from build_recv_batches_send_ops [OF rb] b t
  have cnt: "started_send_message_count rs' = started_send_message_count rs1"
    and mem: "b \<in> set (case sb of None \<Rightarrow> [] | Some x \<Rightarrow> [x])"
    by auto
  from mem have "sb = Some b" by (cases sb) auto
  with t have "send_trailing_metadata (the_batch sb)" by (simp add: the_batch_def)
  from build_send_batch_trailing [OF sb this] cnt show ?thesis by simp
qed

text \<open>
  The theorem at the first attempt of the unary call: the send batch carries the
  trailing metadata, and the one message has been started.
\<close>

theorem send_trailing_metadata_after_messages_started_witness:
  "\<not> isl unary_outcome
   \<and> hd (fst (projr unary_outcome)) \<in> set (fst (projr unary_outcome))
   \<and> send_trailing_metadata (hd (fst (projr unary_outcome)))
   \<and> seen_send_trailing_metadata (fst (snd (projr unary_outcome)))
   \<and> started_send_message_count (snd (snd (projr unary_outcome)))
       = num_send_message_ops (fst (snd (projr unary_outcome)))"
proof -
  have ev: "\<not> isl unary_outcome
     \<and> hd (fst (projr unary_outcome)) \<in> set (fst (projr unary_outcome))
     \<and> send_trailing_metadata (hd (fst (projr unary_outcome)))"
    by code_simp
  then have run: "start_retriable_subchannel_batches ex_env ex_chand unary_call new_retry_state
      = Inr (fst (projr unary_outcome), fst (snd (projr unary_outcome)),
             snd (snd (projr unary_outcome)))"
    by (cases unary_outcome) (auto simp: unary_outcome_def)
  from send_trailing_metadata_after_messages_started [OF run] ev show ?thesis by blast
qed

text \<open>
  Against the claim as stated: on that attempt the trailing metadata goes down in the
  same batch as the message, before any message has completed.
\<close>

theorem send_trailing_metadata_before_message_completed:
  "\<not> isl unary_outcome
   \<and> map send_message (fst (projr unary_outcome)) = [True, False]
   \<and> map send_trailing_metadata (fst (projr unary_outcome)) = [True, False]
   \<and> completed_send_message_count (snd (snd (projr unary_outcome))) = 0
   \<and> num_send_message_ops (fst (snd (projr unary_outcome))) = 1"
  by code_simp

section \<open>Service config: timeouts and retry policies\<close>

subsection \<open>Timeout texts\<close>

text \<open>
  What \<open>parse_timeout\<close> decides by itself, for any \<^verbatim>\<open>gpr_parse_nonnegative_int\<close> \<open>h\<close>:
  the text ends in \<^verbatim>\<open>s\<close>; the part before its first point, or all of it when it has no
  point, goes to \<open>h\<close> for the seconds; the part after the first point goes to \<open>h\<close> for
  the nanoseconds and has 3, 6 or 9 characters. Which characters the two parts may hold
  is the decision of \<open>h\<close>.
\<close>

lemma split_at_point:
  assumes "CHR ''.'' \<notin> set whole"
  shows "takeWhile (\<lambda>c. c \<noteq> CHR ''.'') (whole @ CHR ''.'' # f) = whole"
    and "dropWhile (\<lambda>c. c \<noteq> CHR ''.'') (whole @ CHR ''.'' # f) = CHR ''.'' # f"
  using assms by (induction whole) auto

lemma parse_timeout_no_string:
  "json_type field \<noteq> GRPC_JSON_STRING \<Longrightarrow> parse_timeout h field tmo = Inr (False, tmo)"
  by (simp add: parse_timeout_def)

lemma parse_timeout_no_s:
  "json_value field \<noteq> [] \<Longrightarrow> last (json_value field) \<noteq> CHR ''s'' \<Longrightarrow>
     parse_timeout h field tmo = Inr (False, tmo)"
  by (simp add: parse_timeout_def)

lemma parse_timeout_whole:
  assumes "json_type field = GRPC_JSON_STRING" and "json_value field = whole @ ''s''"
    and "CHR ''.'' \<notin> set whole"
  shows "parse_timeout h field tmo = Inr (h whole \<noteq> - 1, tmo\<lparr>tv_sec := h whole\<rparr>)"
  using assms
  by (simp add: parse_timeout_def parse_seconds_def Let_def butlast_append)

lemma parse_timeout_fraction:
  assumes ty: "json_type field = GRPC_JSON_STRING"
    and v: "json_value field = whole @ CHR ''.'' # fraction @ ''s''"
    and np: "CHR ''.'' \<notin> set whole"
  shows "parse_timeout h field tmo
         = (if h fraction = - 1 \<or> length fraction \<notin> {3, 6, 9}
            then Inr (False, tmo\<lparr>tv_nsec := h fraction\<rparr>)
            else Inr (h whole \<noteq> - 1,
                      \<lparr>tv_sec = h whole,
                       tv_nsec = (if length fraction = 9 then h fraction
                                  else wrap_int (h fraction
                                                 * nanos_factor (length fraction)))\<rparr>))"
proof -
  have val: "json_value field = (whole @ CHR ''.'' # fraction) @ ''s''"
    using v by simp
  have buf: "butlast (json_value field) = whole @ CHR ''.'' # fraction"
    unfolding val by (simp only: butlast_snoc [of _ "CHR ''s''", simplified] butlast_append) simp
  have lst: "last (json_value field) = CHR ''s''" and ne: "json_value field \<noteq> []"
    unfolding val by simp_all
  have pt: "CHR ''.'' \<in> set (whole @ CHR ''.'' # fraction)" by simp
  have eq: "tmo\<lparr>tv_nsec := n, tv_sec := s\<rparr> = \<lparr>tv_sec = s, tv_nsec = n\<rparr>" for n s
    by simp
  show ?thesis
    using ty ne lst buf pt split_at_point [OF np, of fraction]
    by (simp add: parse_timeout_def parse_seconds_def Let_def nanos_factor_def eq)
qed

subsection \<open>Retry policies\<close>




































section \<open>Round-robin: picks and empty updates\<close>

lemma next_ready_from_found:
  assumes "i \<le> k" and "k < length scs" and "last_ready + length scs < 2 ^ 64"
    and "ready_at scs ((k + last_ready + 1) mod length scs)"
    and "\<forall>j. i \<le> j \<and> j < k \<longrightarrow> \<not> ready_at scs ((j + last_ready + 1) mod length scs)"
  shows "next_ready_from scs last_ready i = (k + last_ready + 1) mod length scs"
  using assms
proof (induction scs last_ready i rule: next_ready_from.induct)
  case (1 scs last_ready i)
  have small: "i + last_ready + 1 < 2 ^ 64"
    using "1.prems" by linarith
  show ?case
  proof (cases "i = k")
    case True
    with "1.prems" small show ?thesis
      by (subst next_ready_from.simps) (simp add: ready_at_def Let_def)
  next
    case False
    with "1.prems" have lt: "i < k" by simp
    with "1.prems" have nr: "\<not> ready_at scs ((i + last_ready + 1) mod length scs)"
      by simp
    have rec: "next_ready_from scs last_ready (i + 1) = (k + last_ready + 1) mod length scs"
      using lt "1.prems" nr small
      by (intro "1.IH") (auto simp: ready_at_def Let_def)
    show ?thesis
      using lt "1.prems" nr small rec
      by (subst next_ready_from.simps) (simp add: ready_at_def Let_def)
  qed
qed

lemma next_ready_from_none:
  assumes "\<forall>j < length scs. \<not> ready_at scs j"
  shows "next_ready_from scs last_ready i = length scs"
  using assms
proof (induction scs last_ready i rule: next_ready_from.induct)
  case (1 scs last_ready i)
  show ?case
  proof (cases "i < length scs")
    case True
    then have pos: "0 < length scs" by (cases scs) auto
    then have "((i + last_ready + 1) mod 2 ^ 64) mod length scs < length scs"
      by simp
    with "1.prems" have nr: "\<not> ready_at scs (((i + last_ready + 1) mod 2 ^ 64) mod length scs)"
      by blast
    then have "next_ready_from scs last_ready (i + 1) = length scs"
      using True "1.prems" by (intro "1.IH") (auto simp: ready_at_def Let_def)
    with True nr show ?thesis
      by (subst next_ready_from.simps) (simp add: ready_at_def Let_def)
  next
    case False
    then show ?thesis by (subst next_ready_from.simps) simp
  qed
qed

lemma PickLocked_first_ready:
  assumes sl: "subchannel_list p = Some sl" and up: "\<not> shutdown p"
    and nowrap: "last_ready_subchannel_index p + num_subchannels sl < 2 ^ 64"
    and k: "k < num_subchannels sl"
    and ready: "ready_at (subchannels sl)
                  ((last_ready_subchannel_index p + 1 + k) mod num_subchannels sl)"
    and before: "\<forall>j < k. \<not> ready_at (subchannels sl)
                   ((last_ready_subchannel_index p + 1 + j) mod num_subchannels sl)"
  shows "PickLocked p pk
         = Inr (True,
                p\<lparr>last_ready_subchannel_index :=
                    (last_ready_subchannel_index p + 1 + k) mod num_subchannels sl\<rparr>,
                picked (subchannels sl
                          ! ((last_ready_subchannel_index p + 1 + k) mod num_subchannels sl)) pk,
                [])"
proof -
  let ?N = "num_subchannels sl"
  let ?idx = "(last_ready_subchannel_index p + 1 + k) mod ?N"
  have "next_ready_from (subchannels sl) (last_ready_subchannel_index p) 0
          = (k + last_ready_subchannel_index p + 1) mod length (subchannels sl)"
    using k ready before nowrap
    by (intro next_ready_from_found) (auto simp: num_subchannels_def ac_simps)
  then have nx: "next_ready_from (subchannels sl) (last_ready_subchannel_index p) 0 = ?idx"
    by (simp add: num_subchannels_def ac_simps)
  have lt: "?idx < ?N" using k by simp
  show ?thesis
    using sl up nx lt
    by (simp add: PickLocked_def GetNextReadySubchannelIndexLocked_def
        UpdateLastReadySubchannelIndexLocked_def picked_def Let_def split: option.splits)
qed

text \<open>
  Claim C4. For a policy that is not shut down, with a current list of \<open>N\<close>
  subchannels (the cursor plus \<open>N\<close> fitting a \<^verbatim>\<open>size_t\<close>): if, scanning from index
  \<open>(last_ready_subchannel_index + 1) mod N\<close>, the subchannel \<open>k\<close> steps on is the first
  that is ready, \<open>PickLocked\<close> returns true, with the cursor on that index and the
  pick holding the connected subchannel of that subchannel and, in the slot the caller
  passed for it, its user data; if no subchannel of the list is ready, \<open>PickLocked\<close>
  returns false, with the pick put in front of the pending picks.
\<close>

theorem round_robin_pick:
  assumes sl: "subchannel_list p = Some sl" and up: "\<not> shutdown p"
    and nowrap: "last_ready_subchannel_index p + num_subchannels sl < 2 ^ 64"
  shows "(\<forall>k < num_subchannels sl.
            ready_at (subchannels sl)
              ((last_ready_subchannel_index p + 1 + k) mod num_subchannels sl)
            \<and> (\<forall>j < k. \<not> ready_at (subchannels sl)
                          ((last_ready_subchannel_index p + 1 + j) mod num_subchannels sl))
            \<longrightarrow> PickLocked p pk
                  = Inr (True,
                         p\<lparr>last_ready_subchannel_index :=
                             (last_ready_subchannel_index p + 1 + k) mod num_subchannels sl\<rparr>,
                         picked (subchannels sl
                                   ! ((last_ready_subchannel_index p + 1 + k)
                                        mod num_subchannels sl)) pk,
                         []))
       \<and> ((\<forall>i < num_subchannels sl. \<not> ready_at (subchannels sl) i)
            \<longrightarrow> (\<exists>effs. PickLocked p pk
                  = Inr (False,
                         p\<lparr>started_picking := True, pending_picks := pk # pending_picks p\<rparr>,
                         pk, effs)))"
proof (intro conjI allI impI)
  fix k
  let ?N = "num_subchannels sl"
  let ?idx = "(last_ready_subchannel_index p + 1 + k) mod ?N"
  assume k: "k < ?N"
    and h: "ready_at (subchannels sl) ?idx
            \<and> (\<forall>j < k. \<not> ready_at (subchannels sl)
                          ((last_ready_subchannel_index p + 1 + j) mod ?N))"
  have eq: "(j + last_ready_subchannel_index p + 1) = (last_ready_subchannel_index p + 1 + j)" for j
    by simp
  have "next_ready_from (subchannels sl) (last_ready_subchannel_index p) 0
          = (k + last_ready_subchannel_index p + 1) mod length (subchannels sl)"
    using k h nowrap
    by (intro next_ready_from_found) (auto simp: num_subchannels_def ac_simps)
  then have nx: "next_ready_from (subchannels sl) (last_ready_subchannel_index p) 0 = ?idx"
    by (simp add: num_subchannels_def ac_simps)
  have lt: "?idx < ?N" using k by simp
  show "PickLocked p pk
          = Inr (True, p\<lparr>last_ready_subchannel_index := ?idx\<rparr>,
                 picked (subchannels sl ! ?idx) pk, [])"
    using sl up nx lt
    by (simp add: PickLocked_def GetNextReadySubchannelIndexLocked_def
        UpdateLastReadySubchannelIndexLocked_def picked_def Let_def split: option.splits)
next
  let ?N = "num_subchannels sl"
  assume none: "\<forall>i < ?N. \<not> ready_at (subchannels sl) i"
  then have nx: "next_ready_from (subchannels sl) (last_ready_subchannel_index p) 0 = ?N"
    by (simp add: next_ready_from_none num_subchannels_def)
  show "\<exists>effs. PickLocked p pk
                  = Inr (False,
                         p\<lparr>started_picking := True, pending_picks := pk # pending_picks p\<rparr>,
                         pk, effs)"
    using sl up nx
    by (cases "started_picking p")
       (simp_all add: PickLocked_def GetNextReadySubchannelIndexLocked_def queue_pick_def
          StartPickingLocked_def)
qed

text \<open>
  The theorem at three subchannels with the first and third ready and the cursor on
  the first: the scan passes the second, and the third is picked.
\<close>

theorem round_robin_pick_witness:
  "subchannel_list ex_rr = Some ex_list \<and> \<not> shutdown ex_rr
   \<and> last_ready_subchannel_index ex_rr + num_subchannels ex_list < 2 ^ 64
   \<and> \<not> ready_at (subchannels ex_list) 1 \<and> ready_at (subchannels ex_list) 2
   \<and> PickLocked ex_rr ex_pick
       = Inr (True, ex_rr\<lparr>last_ready_subchannel_index := 2\<rparr>,
              ex_pick\<lparr>pick_connected_subchannel := Some 12,
                      pick_user_data := Some (Some ''token-c'')\<rparr>,
              [])"
proof -
  have sl: "subchannel_list ex_rr = Some ex_list" and up: "\<not> shutdown ex_rr"
    by (simp_all add: ex_rr_def)
  have n: "num_subchannels ex_list = 3" and l: "last_ready_subchannel_index ex_rr = 0"
    by (simp_all add: num_subchannels_def ex_list_def ex_rr_def)
  have nowrap: "last_ready_subchannel_index ex_rr + num_subchannels ex_list < 2 ^ 64"
    by (simp add: n l)
  have r1: "\<not> ready_at (subchannels ex_list) 1" and r2: "ready_at (subchannels ex_list) 2"
    by (simp_all add: ready_at_def ex_list_def ex_subchannel_def)
  have scan: "ready_at (subchannels ex_list)
                ((last_ready_subchannel_index ex_rr + 1 + 1) mod num_subchannels ex_list)
              \<and> (\<forall>j < 1. \<not> ready_at (subchannels ex_list)
                    ((last_ready_subchannel_index ex_rr + 1 + j) mod num_subchannels ex_list))"
    using r1 r2 by (simp add: n l numeral_2_eq_2)
  have out: "picked (subchannels ex_list ! 2) ex_pick
               = ex_pick\<lparr>pick_connected_subchannel := Some 12,
                         pick_user_data := Some (Some ''token-c'')\<rparr>"
    by (simp add: picked_def ex_list_def ex_subchannel_def ex_pick_def)
  have k: "1 < num_subchannels ex_list"
    by (simp add: n)
  from round_robin_pick [OF sl up nowrap, of ex_pick] k scan
  have "PickLocked ex_rr ex_pick
          = Inr (True,
                 ex_rr\<lparr>last_ready_subchannel_index :=
                   (last_ready_subchannel_index ex_rr + 1 + 1) mod num_subchannels ex_list\<rparr>,
                 picked (subchannels ex_list
                           ! ((last_ready_subchannel_index ex_rr + 1 + 1)
                                mod num_subchannels ex_list)) ex_pick,
                 [])"
    by blast
  then have "PickLocked ex_rr ex_pick
       = Inr (True, ex_rr\<lparr>last_ready_subchannel_index := 2\<rparr>,
              ex_pick\<lparr>pick_connected_subchannel := Some 12,
                      pick_user_data := Some (Some ''token-c'')\<rparr>,
              [])"
    using out by (simp add: n l numeral_2_eq_2)
  with sl up nowrap r1 r2 show ?thesis by blast
qed

text \<open>
  Claim C5, as amended. An update without an address list (the address arg missing,
  or no pointer) is ignored while a current list exists, and sets the tracker to
  \<^verbatim>\<open>TRANSIENT_FAILURE\<close> when none exists. An update whose address list yields no
  subchannel sets the tracker to \<^verbatim>\<open>TRANSIENT_FAILURE\<close> and makes the empty list the
  current one, shutting down the list it replaces, whether or not a current list
  existed. The tracker of the spec takes \<^verbatim>\<open>TRANSIENT_FAILURE\<close> unless it is shut down,
  and an empty address list yields no subchannel.
\<close>

theorem round_robin_update_empty:
  "(no_address_list a \<and> subchannel_list p \<noteq> None
      \<longrightarrow> UpdateLocked set_state create p a = (p, []))
   \<and> (no_address_list a \<and> subchannel_list p = None
      \<longrightarrow> UpdateLocked set_state create p a
            = (p\<lparr>state_tracker := set_state (state_tracker p) GRPC_CHANNEL_TRANSIENT_FAILURE\<rparr>,
               []))
   \<and> (grpc_channel_args_find a GRPC_ARG_LB_ADDRESSES = Some (ArgPointer addresses)
       \<and> num_subchannels (create addresses) = 0
      \<longrightarrow> UpdateLocked set_state create p a
            = (p\<lparr>state_tracker := set_state (state_tracker p) GRPC_CHANNEL_TRANSIENT_FAILURE,
                 subchannel_list := Some (create addresses)\<rparr>,
               (case subchannel_list p of None \<Rightarrow> []
                | Some old \<Rightarrow> [ShutdownAndUnrefList old])))
   \<and> (state_tracker p \<noteq> GRPC_CHANNEL_SHUTDOWN
      \<longrightarrow> grpc_connectivity_state_set (state_tracker p) GRPC_CHANNEL_TRANSIENT_FAILURE
            = GRPC_CHANNEL_TRANSIENT_FAILURE)
   \<and> num_subchannels (grpc_lb_subchannel_list_create []) = 0"
  by (auto simp: UpdateLocked_def no_address_list_def Let_def grpc_connectivity_state_set_def
        grpc_lb_subchannel_list_create_def num_subchannels_def
      split: option.splits grpc_arg_value.splits)

text \<open>
  The theorem at the policy with three subchannels: the update without address arg
  leaves it as it is, the update with the empty address list does not.
\<close>

theorem round_robin_update_empty_witness:
  "no_address_list missing_update \<and> subchannel_list ex_rr \<noteq> None
   \<and> UpdateLocked grpc_connectivity_state_set grpc_lb_subchannel_list_create ex_rr
        missing_update = (ex_rr, [])
   \<and> grpc_channel_args_find empty_update GRPC_ARG_LB_ADDRESSES = Some (ArgPointer [])
   \<and> num_subchannels (grpc_lb_subchannel_list_create []) = 0
   \<and> UpdateLocked grpc_connectivity_state_set grpc_lb_subchannel_list_create ex_rr
        empty_update
       = (ex_rr\<lparr>state_tracker := GRPC_CHANNEL_TRANSIENT_FAILURE,
                subchannel_list := Some (grpc_lb_subchannel_list_create [])\<rparr>,
          [ShutdownAndUnrefList ex_list])"
proof -
  have miss: "no_address_list missing_update"
    by (simp add: no_address_list_def missing_update_def grpc_channel_args_find_def)
  have cur: "subchannel_list ex_rr \<noteq> None" and cur': "subchannel_list ex_rr = Some ex_list"
    by (simp_all add: ex_rr_def)
  have arg: "grpc_channel_args_find empty_update GRPC_ARG_LB_ADDRESSES = Some (ArgPointer [])"
    by (simp add: empty_update_def grpc_channel_args_find_def)
  have st: "state_tracker ex_rr \<noteq> GRPC_CHANNEL_SHUTDOWN"
    by (simp add: ex_rr_def)
  note m = round_robin_update_empty [where a = missing_update and p = ex_rr
      and set_state = grpc_connectivity_state_set
      and create = grpc_lb_subchannel_list_create and addresses = "[]"]
  note e = round_robin_update_empty [where a = empty_update and p = ex_rr
      and set_state = grpc_connectivity_state_set
      and create = grpc_lb_subchannel_list_create and addresses = "[]"]
  from m miss cur
  have ignored: "UpdateLocked grpc_connectivity_state_set grpc_lb_subchannel_list_create ex_rr
        missing_update = (ex_rr, [])"
    by blast
  from e have none: "num_subchannels (grpc_lb_subchannel_list_create []) = 0"
    by blast
  from e st
  have tf: "grpc_connectivity_state_set (state_tracker ex_rr) GRPC_CHANNEL_TRANSIENT_FAILURE
              = GRPC_CHANNEL_TRANSIENT_FAILURE"
    by blast
  from e arg none
  have "UpdateLocked grpc_connectivity_state_set grpc_lb_subchannel_list_create ex_rr
          empty_update
        = (ex_rr\<lparr>state_tracker :=
                   grpc_connectivity_state_set (state_tracker ex_rr)
                     GRPC_CHANNEL_TRANSIENT_FAILURE,
                 subchannel_list := Some (grpc_lb_subchannel_list_create [])\<rparr>,
           (case subchannel_list ex_rr of None \<Rightarrow> []
            | Some old \<Rightarrow> [ShutdownAndUnrefList old]))"
    by blast
  with tf cur'
  have replaced: "UpdateLocked grpc_connectivity_state_set grpc_lb_subchannel_list_create
          ex_rr empty_update
       = (ex_rr\<lparr>state_tracker := GRPC_CHANNEL_TRANSIENT_FAILURE,
                subchannel_list := Some (grpc_lb_subchannel_list_create [])\<rparr>,
          [ShutdownAndUnrefList ex_list])"
    by simp
  from miss cur ignored arg none replaced show ?thesis by blast
qed

text \<open>
  Against the claim as stated: the update with the empty address list arrives while
  the policy has a current list of three subchannels and is ready; afterwards the
  current list is the empty one and the tracker holds \<^verbatim>\<open>TRANSIENT_FAILURE\<close>.
\<close>

theorem empty_address_list_replaces_current_list:
  "grpc_channel_args_find empty_update GRPC_ARG_LB_ADDRESSES = Some (ArgPointer [])
   \<and> map_option num_subchannels (subchannel_list ex_rr) = Some 3
   \<and> state_tracker ex_rr = GRPC_CHANNEL_READY
   \<and> map_option num_subchannels
        (subchannel_list
           (fst (UpdateLocked grpc_connectivity_state_set grpc_lb_subchannel_list_create
                   ex_rr empty_update))) = Some 0
   \<and> state_tracker
        (fst (UpdateLocked grpc_connectivity_state_set grpc_lb_subchannel_list_create
                ex_rr empty_update)) = GRPC_CHANNEL_TRANSIENT_FAILURE"
  by (simp add: empty_update_def grpc_channel_args_find_def GRPC_ARG_LB_ADDRESSES_def
      ex_rr_def ex_list_def num_subchannels_def UpdateLocked_def
      grpc_lb_subchannel_list_create_def grpc_connectivity_state_set_def)

section \<open>grpclb picks and drops\<close>

text \<open>
  Claim C6, as amended. For every grpclb pick made while a balancer server list is
  current, the index is advanced, wrapping at the end of the list. If the entry at the
  index before the advance is marked drop, the pick completes as a drop: the pending
  pick is returned as it came (no connected subchannel is chosen), the inner
  round-robin policy is not consulted, and, when the balancer call exists and has
  client stats, the stats are updated by one call of
  \<^verbatim>\<open>grpc_grpclb_client_stats_add_call_dropped_locked\<close> with that entry's load-balance
  token; without a balancer call or without client stats nothing is counted. Otherwise
  the pick is delegated to the inner round-robin policy: \<^verbatim>\<open>PickLocked\<close> of that policy
  is asked with the token slot of the pending pick as user data, and its answer is the
  outcome. The policy it leaves and the pick it filled are kept, the token is what it
  wrote to the slot, and its watches are passed on. When it answers Pending the pick
  is Pending. When it answers Done with a connected subchannel and a null token,
  grpclb aborts; in every other case of Done the pick is Done (or, forced
  asynchronous, the completion callback is scheduled last and the pick Pending), the
  token is added to the initial metadata when a subchannel is connected, and the
  client stats go to the call context, or are released when no subchannel is
  connected. A pick whose user data is already set fails the assertion, a missing inner
  policy is a null dereference, and a failure of the inner pick is the failure of the
  pick. The increment of the spec adds one to the count of its token and leaves the
  other counts.
\<close>

theorem grpclb_pick_drop:
  assumes sl: "serverlist glb = Some servers" and idx: "serverlist_index glb < length servers"
  shows "(drop (servers ! serverlist_index glb) \<longrightarrow>
            (\<exists>glb'. PickFromInternalRRLocked add_call_dropped force_async glb pp
                      = Inr (\<not> force_async, glb', pp,
                             if force_async then [SchedOriginalOnComplete] else [])
                 \<and> rr_policy glb' = rr_policy glb
                 \<and> serverlist glb' = serverlist glb
                 \<and> serverlist_index glb' = next_serverlist_index servers (serverlist_index glb)
                 \<and> (\<forall>calld stats. lb_calld glb = Some calld \<and> client_stats calld = Some stats
                       \<longrightarrow> lb_calld glb'
                             = Some (calld\<lparr>client_stats :=
                                       Some (add_call_dropped
                                               (load_balance_token (servers ! serverlist_index glb))
                                               stats)\<rparr>))
                 \<and> (\<not> has_client_stats glb \<longrightarrow> lb_calld glb' = lb_calld glb)))
       \<and> (\<not> drop (servers ! serverlist_index glb) \<longrightarrow>
            PickFromInternalRRLocked add_call_dropped force_async glb pp
              = pick_via_rr force_async
                  (glb\<lparr>serverlist_index :=
                         next_serverlist_index servers (serverlist_index glb)\<rparr>) pp)
       \<and> (\<forall>rr pick_done rr1 pick2 es.
             \<not> drop (servers ! serverlist_index glb)
             \<and> rr_policy glb = Some rr \<and> pick_user_data (pick pp) = None
             \<and> PickLocked rr ((pick pp)\<lparr>pick_user_data := Some (lb_token pp)\<rparr>)
                 = Inr (pick_done, rr1, pick2, es)
             \<longrightarrow> PickFromInternalRRLocked add_call_dropped force_async glb pp
                 = (let token = (case pick_user_data pick2 of
                                   None \<Rightarrow> lb_token pp | Some written \<Rightarrow> written);
                        stats = (holds_client_stats pp \<or> has_client_stats glb);
                        pp' = pp\<lparr>pick := pick2, lb_token := token,
                                  holds_client_stats := stats\<rparr>;
                        glb' = glb\<lparr>serverlist_index :=
                                      next_serverlist_index servers (serverlist_index glb),
                                    rr_policy := Some rr1\<rparr>
                    in if \<not> pick_done then Inr (False, glb', pp', map InnerRR es)
                       else if pick_connected_subchannel pick2 \<noteq> None \<and> token = None
                       then Inl Aborted
                       else Inr (\<not> force_async, glb', pp',
                                 map InnerRR es
                                 @ (case (pick_connected_subchannel pick2, token) of
                                      (Some sc, Some tok) \<Rightarrow>
                                        AddLbTokenToInitialMetadata tok
                                        # (if stats then [ClientStatsToCallContext] else [])
                                    | _ \<Rightarrow> if stats then [ClientStatsUnref] else [])
                                 @ (if force_async then [SchedOriginalOnComplete] else []))))
       \<and> (\<not> drop (servers ! serverlist_index glb) \<and> pick_user_data (pick pp) \<noteq> None
            \<longrightarrow> PickFromInternalRRLocked add_call_dropped force_async glb pp
                = Inl AssertionFailed)
       \<and> (\<not> drop (servers ! serverlist_index glb) \<and> pick_user_data (pick pp) = None
            \<and> rr_policy glb = None
            \<longrightarrow> PickFromInternalRRLocked add_call_dropped force_async glb pp
                = Inl NullDereference)
       \<and> (\<forall>rr failed.
             \<not> drop (servers ! serverlist_index glb)
             \<and> rr_policy glb = Some rr \<and> pick_user_data (pick pp) = None
             \<and> PickLocked rr ((pick pp)\<lparr>pick_user_data := Some (lb_token pp)\<rparr>) = Inl failed
             \<longrightarrow> PickFromInternalRRLocked add_call_dropped force_async glb pp = Inl failed)
       \<and> drop_token_counts (grpc_grpclb_client_stats_add_call_dropped_locked token st) token
           = drop_token_counts st token + 1
       \<and> (\<forall>t. t \<noteq> token \<longrightarrow>
             drop_token_counts (grpc_grpclb_client_stats_add_call_dropped_locked token st) t
               = drop_token_counts st t)"
proof -
  let ?next = "next_serverlist_index servers (serverlist_index glb)"
  let ?g = "glb\<lparr>serverlist_index := ?next\<rparr>"
  have d: "drop (servers ! serverlist_index glb) \<longrightarrow>
            (\<exists>glb'. PickFromInternalRRLocked add_call_dropped force_async glb pp
                      = Inr (\<not> force_async, glb', pp,
                             if force_async then [SchedOriginalOnComplete] else [])
                 \<and> rr_policy glb' = rr_policy glb
                 \<and> serverlist glb' = serverlist glb
                 \<and> serverlist_index glb' = next_serverlist_index servers (serverlist_index glb)
                 \<and> (\<forall>calld stats. lb_calld glb = Some calld \<and> client_stats calld = Some stats
                       \<longrightarrow> lb_calld glb'
                             = Some (calld\<lparr>client_stats :=
                                       Some (add_call_dropped
                                               (load_balance_token (servers ! serverlist_index glb))
                                               stats)\<rparr>))
                 \<and> (\<not> has_client_stats glb \<longrightarrow> lb_calld glb' = lb_calld glb))"
    using sl idx
    by (auto simp: PickFromInternalRRLocked_def Let_def next_serverlist_index_def
          has_client_stats_def split: option.splits)
  have n: "\<not> drop (servers ! serverlist_index glb) \<longrightarrow>
            PickFromInternalRRLocked add_call_dropped force_async glb pp
              = pick_via_rr force_async ?g pp"
    using sl idx
    by (simp add: PickFromInternalRRLocked_def Let_def next_serverlist_index_def)
  have hs: "has_client_stats ?g = has_client_stats glb"
    by (simp add: has_client_stats_def)
  have v: "\<forall>rr pick_done rr1 pick2 es.
             \<not> drop (servers ! serverlist_index glb)
             \<and> rr_policy glb = Some rr \<and> pick_user_data (pick pp) = None
             \<and> PickLocked rr ((pick pp)\<lparr>pick_user_data := Some (lb_token pp)\<rparr>)
                 = Inr (pick_done, rr1, pick2, es)
             \<longrightarrow> PickFromInternalRRLocked add_call_dropped force_async glb pp
                 = (let token = (case pick_user_data pick2 of
                                   None \<Rightarrow> lb_token pp | Some written \<Rightarrow> written);
                        stats = (holds_client_stats pp \<or> has_client_stats glb);
                        pp' = pp\<lparr>pick := pick2, lb_token := token,
                                  holds_client_stats := stats\<rparr>;
                        glb' = glb\<lparr>serverlist_index :=
                                      next_serverlist_index servers (serverlist_index glb),
                                    rr_policy := Some rr1\<rparr>
                    in if \<not> pick_done then Inr (False, glb', pp', map InnerRR es)
                       else if pick_connected_subchannel pick2 \<noteq> None \<and> token = None
                       then Inl Aborted
                       else Inr (\<not> force_async, glb', pp',
                                 map InnerRR es
                                 @ (case (pick_connected_subchannel pick2, token) of
                                      (Some sc, Some tok) \<Rightarrow>
                                        AddLbTokenToInitialMetadata tok
                                        # (if stats then [ClientStatsToCallContext] else [])
                                    | _ \<Rightarrow> if stats then [ClientStatsUnref] else [])
                                 @ (if force_async then [SchedOriginalOnComplete] else [])))"
  proof (intro allI impI)
    fix rr pick_done rr1 pick2 es
    assume h: "\<not> drop (servers ! serverlist_index glb)
             \<and> rr_policy glb = Some rr \<and> pick_user_data (pick pp) = None
             \<and> PickLocked rr ((pick pp)\<lparr>pick_user_data := Some (lb_token pp)\<rparr>)
                 = Inr (pick_done, rr1, pick2, es)"
    with n have eq: "PickFromInternalRRLocked add_call_dropped force_async glb pp
                       = pick_via_rr force_async ?g pp"
      by simp
    show "PickFromInternalRRLocked add_call_dropped force_async glb pp
                 = (let token = (case pick_user_data pick2 of
                                   None \<Rightarrow> lb_token pp | Some written \<Rightarrow> written);
                        stats = (holds_client_stats pp \<or> has_client_stats glb);
                        pp' = pp\<lparr>pick := pick2, lb_token := token,
                                  holds_client_stats := stats\<rparr>;
                        glb' = glb\<lparr>serverlist_index :=
                                      next_serverlist_index servers (serverlist_index glb),
                                    rr_policy := Some rr1\<rparr>
                    in if \<not> pick_done then Inr (False, glb', pp', map InnerRR es)
                       else if pick_connected_subchannel pick2 \<noteq> None \<and> token = None
                       then Inl Aborted
                       else Inr (\<not> force_async, glb', pp',
                                 map InnerRR es
                                 @ (case (pick_connected_subchannel pick2, token) of
                                      (Some sc, Some tok) \<Rightarrow>
                                        AddLbTokenToInitialMetadata tok
                                        # (if stats then [ClientStatsToCallContext] else [])
                                    | _ \<Rightarrow> if stats then [ClientStatsUnref] else [])
                                 @ (if force_async then [SchedOriginalOnComplete] else [])))"
      unfolding eq using h hs
      by (cases pp)
         (auto simp: pick_via_rr_def Let_def PendingPickSetMetadataAndContext_def
               split: option.splits)
  qed
  have a: "\<not> drop (servers ! serverlist_index glb) \<and> pick_user_data (pick pp) \<noteq> None
            \<longrightarrow> PickFromInternalRRLocked add_call_dropped force_async glb pp
                = Inl AssertionFailed"
    using n by (auto simp: pick_via_rr_def Let_def)
  have z: "\<not> drop (servers ! serverlist_index glb) \<and> pick_user_data (pick pp) = None
            \<and> rr_policy glb = None
            \<longrightarrow> PickFromInternalRRLocked add_call_dropped force_async glb pp
                = Inl NullDereference"
    using n by (auto simp: pick_via_rr_def Let_def)
  have f: "\<forall>rr failed.
             \<not> drop (servers ! serverlist_index glb)
             \<and> rr_policy glb = Some rr \<and> pick_user_data (pick pp) = None
             \<and> PickLocked rr ((pick pp)\<lparr>pick_user_data := Some (lb_token pp)\<rparr>) = Inl failed
             \<longrightarrow> PickFromInternalRRLocked add_call_dropped force_async glb pp = Inl failed"
    using n hs by (auto simp: pick_via_rr_def Let_def)
  have c: "drop_token_counts (grpc_grpclb_client_stats_add_call_dropped_locked token st) token
           = drop_token_counts st token + 1
       \<and> (\<forall>t. t \<noteq> token \<longrightarrow>
             drop_token_counts (grpc_grpclb_client_stats_add_call_dropped_locked token st) t
               = drop_token_counts st t)"
    by (simp add: grpc_grpclb_client_stats_add_call_dropped_locked_def)
  from d n v a z f c show ?thesis by (intro conjI) simp_all
qed

theorem grpclb_pick_drop_witness:
  "serverlist ex_glb
     = Some [\<lparr>server_address = ''a:1'', load_balance_token = ''t1'', drop = True\<rparr>,
             \<lparr>server_address = ''x:1'', load_balance_token = ''t2'', drop = False\<rparr>]
   \<and> serverlist_index ex_glb = 0
   \<and> dropped_calls ex_glb ''t1'' = Some 0
   \<and> (case PickFromInternalRRLocked grpc_grpclb_client_stats_add_call_dropped_locked
             False ex_glb ex_pending_pick of
         Inl f \<Rightarrow> False
       | Inr (done, glb', pp', effs) \<Rightarrow>
           done \<and> pp' = ex_pending_pick \<and> effs = []
           \<and> rr_policy glb' = Some ex_rr \<and> serverlist_index glb' = 1
           \<and> dropped_calls glb' ''t1'' = Some 1 \<and> dropped_calls glb' ''t2'' = Some 0)
   \<and> serverlist_index ex_glb_second = 1
   \<and> PickFromInternalRRLocked grpc_grpclb_client_stats_add_call_dropped_locked
        False ex_glb_second ex_pending_pick
       = Inr (True,
              ex_glb_second\<lparr>serverlist_index := 0,
                              rr_policy := Some (ex_rr\<lparr>last_ready_subchannel_index := 2\<rparr>)\<rparr>,
              ex_pending_pick\<lparr>pick := \<lparr>initial_metadata_flags = 0,
                                        pick_connected_subchannel = Some 12,
                                        pick_user_data = Some (Some ''token-c'')\<rparr>,
                                lb_token := Some ''token-c'',
                                holds_client_stats := True\<rparr>,
              [AddLbTokenToInitialMetadata ''token-c'', ClientStatsToCallContext])"
proof -
  let ?servers = "[\<lparr>server_address = ''a:1'', load_balance_token = ''t1'', drop = True\<rparr>,
                   \<lparr>server_address = ''x:1'', load_balance_token = ''t2'', drop = False\<rparr>]"
  have sl: "serverlist ex_glb = Some ?servers" and i0: "serverlist_index ex_glb = 0"
    and rr: "rr_policy ex_glb = Some ex_rr"
    and calld: "lb_calld ex_glb = Some \<lparr>client_stats = Some ex_stats\<rparr>"
    by (simp_all add: ex_glb_def)
  have idx: "serverlist_index ex_glb < length ?servers"
    by (simp add: i0)
  have d: "drop (?servers ! serverlist_index ex_glb)"
    by (simp add: i0)
  have before: "dropped_calls ex_glb ''t1'' = Some 0"
    by (simp add: dropped_calls_def calld ex_stats_def)
  note inst = grpclb_pick_drop [OF sl idx,
      where add_call_dropped = grpc_grpclb_client_stats_add_call_dropped_locked
        and force_async = False and pp = ex_pending_pick
        and token = "''t1''" and st = ex_stats]
  from inst d obtain glb' where
    res: "PickFromInternalRRLocked grpc_grpclb_client_stats_add_call_dropped_locked
            False ex_glb ex_pending_pick = Inr (True, glb', ex_pending_pick, [])"
    and rr': "rr_policy glb' = rr_policy ex_glb"
    and i': "serverlist_index glb' = next_serverlist_index ?servers (serverlist_index ex_glb)"
    and st': "\<forall>calld stats. lb_calld ex_glb = Some calld \<and> client_stats calld = Some stats
                \<longrightarrow> lb_calld glb'
                      = Some (calld\<lparr>client_stats :=
                                Some (grpc_grpclb_client_stats_add_call_dropped_locked
                                        (load_balance_token (?servers ! serverlist_index ex_glb))
                                        stats)\<rparr>)"
    by auto
  from st' calld have calld':
    "lb_calld glb'
       = Some \<lparr>client_stats =
                 Some (grpc_grpclb_client_stats_add_call_dropped_locked ''t1'' ex_stats)\<rparr>"
    by (simp add: i0)
  from inst have
    "drop_token_counts (grpc_grpclb_client_stats_add_call_dropped_locked ''t1'' ex_stats) ''t1''
       = drop_token_counts ex_stats ''t1'' + 1"
    and "\<forall>t. t \<noteq> ''t1'' \<longrightarrow>
           drop_token_counts (grpc_grpclb_client_stats_add_call_dropped_locked ''t1'' ex_stats) t
             = drop_token_counts ex_stats t"
    by blast+
  then have after: "dropped_calls glb' ''t1'' = Some 1" "dropped_calls glb' ''t2'' = Some 0"
    by (simp_all add: dropped_calls_def calld' ex_stats_def)
  have i1: "serverlist_index glb' = 1"
    by (simp add: i' i0 next_serverlist_index_def)
  have sl2: "serverlist ex_glb_second = Some ?servers"
    and j1: "serverlist_index ex_glb_second = 1"
    and rr2: "rr_policy ex_glb_second = Some ex_rr"
    and has: "has_client_stats ex_glb_second"
    by (simp_all add: ex_glb_second_def ex_glb_def has_client_stats_def)
  have idx2: "serverlist_index ex_glb_second < length ?servers"
    by (simp add: j1)
  have nd: "\<not> drop (?servers ! serverlist_index ex_glb_second)"
    by (simp add: j1)
  have slot: "pick_user_data (pick ex_pending_pick) = None"
    and tok: "lb_token ex_pending_pick = None"
    and held: "\<not> holds_client_stats ex_pending_pick"
    by (simp_all add: ex_pending_pick_def)
  let ?pick2 = "\<lparr>initial_metadata_flags = 0, pick_connected_subchannel = Some 12,
                 pick_user_data = Some (Some ''token-c'')\<rparr>"
  have inner: "PickLocked ex_rr
                 ((pick ex_pending_pick)\<lparr>pick_user_data := Some (lb_token ex_pending_pick)\<rparr>)
               = Inr (True, ex_rr\<lparr>last_ready_subchannel_index := 2\<rparr>, ?pick2, [])"
  proof -
    let ?slot = "(pick ex_pending_pick)\<lparr>pick_user_data := Some (lb_token ex_pending_pick)\<rparr>"
    have l: "subchannel_list ex_rr = Some ex_list" and u: "\<not> shutdown ex_rr"
      and c: "last_ready_subchannel_index ex_rr = 0"
      by (simp_all add: ex_rr_def)
    have n: "num_subchannels ex_list = 3"
      by (simp add: num_subchannels_def ex_list_def)
    have fits: "last_ready_subchannel_index ex_rr + num_subchannels ex_list < 2 ^ 64"
      by (simp add: c n)
    have one: "1 < num_subchannels ex_list"
      by (simp add: n)
    have r2: "ready_at (subchannels ex_list)
                ((last_ready_subchannel_index ex_rr + 1 + 1) mod num_subchannels ex_list)"
      by (simp add: c n) (simp add: ready_at_def ex_list_def ex_subchannel_def numeral_2_eq_2)
    have r1: "\<forall>j < 1. \<not> ready_at (subchannels ex_list)
                ((last_ready_subchannel_index ex_rr + 1 + j) mod num_subchannels ex_list)"
      by (simp add: c n) (simp add: ready_at_def ex_list_def ex_subchannel_def)
    have "PickLocked ex_rr ?slot
          = Inr (True,
                 ex_rr\<lparr>last_ready_subchannel_index :=
                         (last_ready_subchannel_index ex_rr + 1 + 1) mod num_subchannels ex_list\<rparr>,
                 picked (subchannels ex_list
                           ! ((last_ready_subchannel_index ex_rr + 1 + 1)
                                mod num_subchannels ex_list)) ?slot,
                 [])"
      by (rule PickLocked_first_ready [OF l u fits one r2 r1])
    moreover have "(last_ready_subchannel_index ex_rr + 1 + 1) mod num_subchannels ex_list = 2"
      by (simp add: c n)
    moreover have "picked (subchannels ex_list ! 2) ?slot = ?pick2"
      by (simp add: picked_def ex_list_def ex_subchannel_def ex_pending_pick_def)
    ultimately show ?thesis by simp
  qed
  note inst2 = grpclb_pick_drop [OF sl2 idx2,
      where add_call_dropped = grpc_grpclb_client_stats_add_call_dropped_locked
        and force_async = False and pp = ex_pending_pick
        and token = "''t1''" and st = ex_stats]
  note delegated = inst2 [THEN conjunct2, THEN conjunct2, THEN conjunct1, rule_format]
  from delegated [OF conjI [OF nd conjI [OF rr2 conjI [OF slot inner]]]]
  have second:
    "PickFromInternalRRLocked grpc_grpclb_client_stats_add_call_dropped_locked
        False ex_glb_second ex_pending_pick
       = Inr (True,
              ex_glb_second\<lparr>serverlist_index := 0,
                              rr_policy := Some (ex_rr\<lparr>last_ready_subchannel_index := 2\<rparr>)\<rparr>,
              ex_pending_pick\<lparr>pick := ?pick2, lb_token := Some ''token-c'',
                                holds_client_stats := True\<rparr>,
              [AddLbTokenToInitialMetadata ''token-c'', ClientStatsToCallContext])"
    by (simp add: has j1 next_serverlist_index_def Let_def)
  from sl i0 before res rr' rr after i1 j1 second show ?thesis
    by simp
qed


theorem drop_without_client_stats:
  "drop (the (serverlist ex_glb_quiet) ! serverlist_index ex_glb_quiet)
   \<and> dropped_calls ex_glb_quiet ''t1'' = None
   \<and> PickFromInternalRRLocked grpc_grpclb_client_stats_add_call_dropped_locked
        False ex_glb_quiet ex_pending_pick
       = Inr (True, ex_glb_quiet\<lparr>serverlist_index := 1\<rparr>, ex_pending_pick, [])
   \<and> dropped_calls (ex_glb_quiet\<lparr>serverlist_index := 1\<rparr>) ''t1'' = None"
  by (simp add: PickFromInternalRRLocked_def Let_def ex_glb_quiet_def ex_glb_def
      dropped_calls_def)

section \<open>The end of a health-check call\<close>

lemma SetHealthStatusLocked_fields:
  "SetHealthStatusLocked c s = (c', effs) \<Longrightarrow>
     health_state c' = s \<and> call_state c' = call_state c
     \<and> calls_created c' = calls_created c
     \<and> health_shutting_down c' = health_shutting_down c
     \<and> retry_backoff c' = retry_backoff c
     \<and> health_retry_timer c' = health_retry_timer c
     \<and> retry_timer_callback_pending c' = retry_timer_callback_pending c
     \<and> (\<forall>e \<in> set effs. e = SchedOnHealthChanged s)"
  by (auto simp: SetHealthStatusLocked_def split: option.splits if_splits)

lemma set_effs_quiet:
  "\<forall>e \<in> set effs. e = SchedOnHealthChanged s \<Longrightarrow> \<not> starts_call effs \<and> \<not> arms_timer effs"
  by (auto simp: starts_call_def arms_timer_def list_ex_iff)

lemma unimplemented_case:
  assumes "trailing_status es ms = GRPC_STATUS_UNIMPLEMENTED"
  shows "\<exists>c' effs. RecvTrailingMetadataReady att c self es ms = Inr (c', effs)
           \<and> health_state c' = GRPC_CHANNEL_READY
           \<and> call_state c' = (if in_use c self then None else call_state c)
           \<and> health_retry_timer c' = health_retry_timer c
           \<and> \<not> starts_call effs \<and> \<not> arms_timer effs"
proof -
  obtain c1 e1 where s: "SetHealthStatusLocked c GRPC_CHANNEL_READY = (c1, e1)"
    by (cases "SetHealthStatusLocked c GRPC_CHANNEL_READY")
  note f = SetHealthStatusLocked_fields [OF s]
  from f set_effs_quiet [of e1 GRPC_CHANNEL_READY]
  have q: "\<not> starts_call e1 \<and> \<not> arms_timer e1" by blast
  show ?thesis
    using assms s f q
    by (auto simp: RecvTrailingMetadataReady_def CallEnded_def in_use_def Let_def
          starts_call_def arms_timer_def)
qed

lemma no_response_case:
  assumes "trailing_status es ms \<noteq> GRPC_STATUS_UNIMPLEMENTED"
    and "in_use c self" and "\<not> health_shutting_down c" and "\<not> seen_response self"
  shows "\<exists>c' effs. RecvTrailingMetadataReady att c self es ms = Inr (c', effs)
           \<and> health_state c' = GRPC_CHANNEL_TRANSIENT_FAILURE
           \<and> call_state c' = None
           \<and> retry_timer_callback_pending c'
           \<and> health_retry_timer c'
               = Some (att (options (retry_backoff c)) (attempts (retry_backoff c)))
           \<and> options (retry_backoff c') = options (retry_backoff c)
           \<and> arms_timer effs \<and> \<not> starts_call effs
           \<and> (\<exists>c'' effs'. OnRetryTimer c' False = Inr (c'', effs')
                 \<and> health_state c'' = GRPC_CHANNEL_CONNECTING
                 \<and> call_state c'' = Some (calls_created c)
                 \<and> starts_call effs')"
proof -
  let ?c0 = "c\<lparr>call_state := None\<rparr>"
  obtain c1 e1 where s: "SetHealthStatusLocked ?c0 GRPC_CHANNEL_TRANSIENT_FAILURE = (c1, e1)"
    by (cases "SetHealthStatusLocked ?c0 GRPC_CHANNEL_TRANSIENT_FAILURE")
  note f = SetHealthStatusLocked_fields [OF s]
  from f set_effs_quiet [of e1 GRPC_CHANNEL_TRANSIENT_FAILURE]
  have q: "\<not> starts_call e1 \<and> \<not> arms_timer e1" by blast
  let ?t = "att (options (retry_backoff c)) (attempts (retry_backoff c))"
  let ?c' = "c1\<lparr>retry_backoff := (retry_backoff c1)\<lparr>attempts := attempts (retry_backoff c1) + 1\<rparr>,
                retry_timer_callback_pending := True, health_retry_timer := Some ?t\<rparr>"
  have run: "RecvTrailingMetadataReady att c self es ms
               = Inr (?c', e1 @ [TimerInitOnRetryTimer ?t])"
    using assms s f
    by (simp add: RecvTrailingMetadataReady_def CallEnded_def in_use_def Let_def
        StartRetryTimer_def NextAttemptTime_def)
  let ?d = "?c'\<lparr>retry_timer_callback_pending := False\<rparr>"
  obtain c2 e2 where s2: "SetHealthStatusLocked ?d GRPC_CHANNEL_CONNECTING = (c2, e2)"
    by (cases "SetHealthStatusLocked ?d GRPC_CHANNEL_CONNECTING")
  note f2 = SetHealthStatusLocked_fields [OF s2]
  have timer: "\<exists>c'' effs'. OnRetryTimer ?c' False = Inr (c'', effs')
                 \<and> health_state c'' = GRPC_CHANNEL_CONNECTING
                 \<and> call_state c'' = Some (calls_created c)
                 \<and> starts_call effs'"
    using assms s2 f2 f
    by (simp add: OnRetryTimer_def StartCallLocked_def Let_def starts_call_def)
  show ?thesis
    using run f q timer
    by (simp add: arms_timer_def starts_call_def)
qed

lemma seen_response_case:
  assumes "trailing_status es ms \<noteq> GRPC_STATUS_UNIMPLEMENTED"
    and "in_use c self" and "\<not> health_shutting_down c" and "seen_response self"
  shows "\<exists>c' effs. RecvTrailingMetadataReady att c self es ms = Inr (c', effs)
           \<and> health_state c' = GRPC_CHANNEL_CONNECTING
           \<and> call_state c' = Some (calls_created c)
           \<and> attempts (retry_backoff c') = 0
           \<and> options (retry_backoff c') = options (retry_backoff c)
           \<and> health_retry_timer c' = health_retry_timer c
           \<and> starts_call effs \<and> \<not> arms_timer effs"
proof -
  let ?c0 = "c\<lparr>call_state := None, retry_backoff := Reset (retry_backoff c)\<rparr>"
  obtain c1 e1 where s: "SetHealthStatusLocked ?c0 GRPC_CHANNEL_CONNECTING = (c1, e1)"
    by (cases "SetHealthStatusLocked ?c0 GRPC_CHANNEL_CONNECTING")
  note f = SetHealthStatusLocked_fields [OF s]
  from f set_effs_quiet [of e1 GRPC_CHANNEL_CONNECTING]
  have q: "\<not> starts_call e1 \<and> \<not> arms_timer e1" by blast
  show ?thesis
    using assms s f q
    by (simp add: RecvTrailingMetadataReady_def CallEnded_def in_use_def Let_def
        StartCallLocked_def Reset_def starts_call_def arms_timer_def)
qed

lemma superseded_case:
  assumes "trailing_status es ms \<noteq> GRPC_STATUS_UNIMPLEMENTED" and "\<not> in_use c self"
  shows "RecvTrailingMetadataReady att c self es ms = Inr (c, [])"
  using assms by (simp add: RecvTrailingMetadataReady_def CallEnded_def in_use_def)

lemma constructor_options:
  "HealthCheckClient_new s0 = Inr (c0, e0) \<Longrightarrow>
     options (retry_backoff c0)
       = \<lparr>initial_backoff = 1000, multiplier = 1.6, jitter = 0.2, max_backoff = 120000\<rparr>"
  by (auto simp: HealthCheckClient_new_def StartCallLocked_def SetHealthStatusLocked_def
        health_check_backoff_options_def HEALTH_CHECK_INITIAL_CONNECT_BACKOFF_SECONDS_def
        HEALTH_CHECK_RECONNECT_BACKOFF_MULTIPLIER_def HEALTH_CHECK_RECONNECT_JITTER_def
        HEALTH_CHECK_RECONNECT_MAX_BACKOFF_SECONDS_def)

lemma shutting_down_case:
  assumes "trailing_status es ms \<noteq> GRPC_STATUS_UNIMPLEMENTED"
    and "in_use c self" and "health_shutting_down c"
  shows "RecvTrailingMetadataReady att c self es ms = Inl AssertionFailed"
  using assms by (simp add: RecvTrailingMetadataReady_def CallEnded_def in_use_def Let_def)

text \<open>
  Claim C7, as amended. When the health-check call terminates with status
  \<^verbatim>\<open>UNIMPLEMENTED\<close>, the client publishes \<^verbatim>\<open>READY\<close>, whether or not the call state
  is the one in use; it drops the call state if it is the one in use, leaves the one in
  use as it is otherwise, and neither restarts the call nor arms a timer. For a
  termination with any other status of the call state in use (the client not shutting
  down): if the call has seen no response, the client publishes \<^verbatim>\<open>TRANSIENT_FAILURE\<close>
  and arms the retry timer at the next attempt time of its back-off, without starting a
  call, and the expiry of that timer publishes \<^verbatim>\<open>CONNECTING\<close> and starts a new call;
  if the call has seen a response, the client resets the back-off, publishes
  \<^verbatim>\<open>CONNECTING\<close> and starts a new call at once, arming no timer. A termination with
  a status other than \<^verbatim>\<open>UNIMPLEMENTED\<close> of a call state that is no longer the one in
  use changes nothing, and such a termination of the one in use while the client shuts
  down fails the assertion of \<^verbatim>\<open>CallEnded\<close>. The back-off keeps its options, which the
  constructor sets to initial 1 s, multiplier 1.6, jitter 0.2, maximum 120 s.
\<close>

theorem health_check_call_end:
  "(trailing_status es ms = GRPC_STATUS_UNIMPLEMENTED \<longrightarrow>
      (\<exists>c' effs. RecvTrailingMetadataReady att c self es ms = Inr (c', effs)
           \<and> health_state c' = GRPC_CHANNEL_READY
           \<and> call_state c' = (if in_use c self then None else call_state c)
           \<and> health_retry_timer c' = health_retry_timer c
           \<and> \<not> starts_call effs \<and> \<not> arms_timer effs))
   \<and> (trailing_status es ms \<noteq> GRPC_STATUS_UNIMPLEMENTED \<and> in_use c self
        \<and> \<not> health_shutting_down c \<and> \<not> seen_response self \<longrightarrow>
      (\<exists>c' effs. RecvTrailingMetadataReady att c self es ms = Inr (c', effs)
           \<and> health_state c' = GRPC_CHANNEL_TRANSIENT_FAILURE
           \<and> call_state c' = None
           \<and> retry_timer_callback_pending c'
           \<and> health_retry_timer c'
               = Some (att (options (retry_backoff c)) (attempts (retry_backoff c)))
           \<and> options (retry_backoff c') = options (retry_backoff c)
           \<and> arms_timer effs \<and> \<not> starts_call effs
           \<and> (\<exists>c'' effs'. OnRetryTimer c' False = Inr (c'', effs')
                 \<and> health_state c'' = GRPC_CHANNEL_CONNECTING
                 \<and> call_state c'' = Some (calls_created c)
                 \<and> starts_call effs')))
   \<and> (trailing_status es ms \<noteq> GRPC_STATUS_UNIMPLEMENTED \<and> in_use c self
        \<and> \<not> health_shutting_down c \<and> seen_response self \<longrightarrow>
      (\<exists>c' effs. RecvTrailingMetadataReady att c self es ms = Inr (c', effs)
           \<and> health_state c' = GRPC_CHANNEL_CONNECTING
           \<and> call_state c' = Some (calls_created c)
           \<and> attempts (retry_backoff c') = 0
           \<and> options (retry_backoff c') = options (retry_backoff c)
           \<and> health_retry_timer c' = health_retry_timer c
           \<and> starts_call effs \<and> \<not> arms_timer effs))
   \<and> (trailing_status es ms \<noteq> GRPC_STATUS_UNIMPLEMENTED \<and> \<not> in_use c self \<longrightarrow>
        RecvTrailingMetadataReady att c self es ms = Inr (c, []))
   \<and> (trailing_status es ms \<noteq> GRPC_STATUS_UNIMPLEMENTED \<and> in_use c self
        \<and> health_shutting_down c \<longrightarrow>
        RecvTrailingMetadataReady att c self es ms = Inl AssertionFailed)
   \<and> (\<forall>s0 c0 e0. HealthCheckClient_new s0 = Inr (c0, e0) \<longrightarrow>
         options (retry_backoff c0)
           = \<lparr>initial_backoff = 1000, multiplier = 1.6, jitter = 0.2,
              max_backoff = 120000\<rparr>)"
proof (intro conjI impI allI)
  assume "trailing_status es ms = GRPC_STATUS_UNIMPLEMENTED"
  then show "\<exists>c' effs. RecvTrailingMetadataReady att c self es ms = Inr (c', effs)
           \<and> health_state c' = GRPC_CHANNEL_READY
           \<and> call_state c' = (if in_use c self then None else call_state c)
           \<and> health_retry_timer c' = health_retry_timer c
           \<and> \<not> starts_call effs \<and> \<not> arms_timer effs"
    by (rule unimplemented_case)
next
  assume "trailing_status es ms \<noteq> GRPC_STATUS_UNIMPLEMENTED \<and> in_use c self
        \<and> \<not> health_shutting_down c \<and> \<not> seen_response self"
  then have "trailing_status es ms \<noteq> GRPC_STATUS_UNIMPLEMENTED" "in_use c self"
    "\<not> health_shutting_down c" "\<not> seen_response self"
    by simp_all
  then show "\<exists>c' effs. RecvTrailingMetadataReady att c self es ms = Inr (c', effs)
           \<and> health_state c' = GRPC_CHANNEL_TRANSIENT_FAILURE
           \<and> call_state c' = None
           \<and> retry_timer_callback_pending c'
           \<and> health_retry_timer c'
               = Some (att (options (retry_backoff c)) (attempts (retry_backoff c)))
           \<and> options (retry_backoff c') = options (retry_backoff c)
           \<and> arms_timer effs \<and> \<not> starts_call effs
           \<and> (\<exists>c'' effs'. OnRetryTimer c' False = Inr (c'', effs')
                 \<and> health_state c'' = GRPC_CHANNEL_CONNECTING
                 \<and> call_state c'' = Some (calls_created c)
                 \<and> starts_call effs')"
    by (rule no_response_case)
next
  assume "trailing_status es ms \<noteq> GRPC_STATUS_UNIMPLEMENTED \<and> in_use c self
        \<and> \<not> health_shutting_down c \<and> seen_response self"
  then have "trailing_status es ms \<noteq> GRPC_STATUS_UNIMPLEMENTED" "in_use c self"
    "\<not> health_shutting_down c" "seen_response self"
    by simp_all
  then show "\<exists>c' effs. RecvTrailingMetadataReady att c self es ms = Inr (c', effs)
           \<and> health_state c' = GRPC_CHANNEL_CONNECTING
           \<and> call_state c' = Some (calls_created c)
           \<and> attempts (retry_backoff c') = 0
           \<and> options (retry_backoff c') = options (retry_backoff c)
           \<and> health_retry_timer c' = health_retry_timer c
           \<and> starts_call effs \<and> \<not> arms_timer effs"
    by (rule seen_response_case)
next
  assume "trailing_status es ms \<noteq> GRPC_STATUS_UNIMPLEMENTED \<and> \<not> in_use c self"
  then show "RecvTrailingMetadataReady att c self es ms = Inr (c, [])"
    by (simp add: superseded_case)
next
  assume "trailing_status es ms \<noteq> GRPC_STATUS_UNIMPLEMENTED \<and> in_use c self
        \<and> health_shutting_down c"
  then show "RecvTrailingMetadataReady att c self es ms = Inl AssertionFailed"
    by (simp add: shutting_down_case)
next
  fix s0 c0 e0
  assume "HealthCheckClient_new s0 = Inr (c0, e0)"
  then show "options (retry_backoff c0)
           = \<lparr>initial_backoff = 1000, multiplier = 1.6, jitter = 0.2,
              max_backoff = 120000\<rparr>"
    by (rule constructor_options)
qed

text \<open>
  The theorem at a call that ends with \<^verbatim>\<open>UNAVAILABLE\<close> before any response: the timer
  is armed at 6000 ms, one initial back-off after the clock.
\<close>

theorem health_check_call_end_witness:
  "trailing_status (Some GRPC_STATUS_UNAVAILABLE) None \<noteq> GRPC_STATUS_UNIMPLEMENTED
   \<and> in_use ex_health_client \<lparr>call_id = 0, seen_response = False\<rparr>
   \<and> \<not> health_shutting_down ex_health_client
   \<and> (case ex_health_outcome False of
         Inl f \<Rightarrow> False
       | Inr (c', effs) \<Rightarrow>
           health_state c' = GRPC_CHANNEL_TRANSIENT_FAILURE
           \<and> call_state c' = None
           \<and> health_retry_timer c' = Some 6000
           \<and> arms_timer effs \<and> \<not> starts_call effs)"
proof -
  let ?self = "\<lparr>call_id = 0, seen_response = False\<rparr>"
  have st: "trailing_status (Some GRPC_STATUS_UNAVAILABLE) None \<noteq> GRPC_STATUS_UNIMPLEMENTED"
    by (simp add: trailing_status_def)
  have use: "in_use ex_health_client ?self"
    by (simp add: in_use_def ex_health_client_def)
  have up: "\<not> health_shutting_down ex_health_client"
    by (simp add: ex_health_client_def)
  have seen: "\<not> seen_response ?self"
    by simp
  have t: "ex_attempt_time (options (retry_backoff ex_health_client))
             (attempts (retry_backoff ex_health_client)) = 6000"
    by (simp add: ex_attempt_time_def ex_health_client_def health_check_backoff_options_def
        HEALTH_CHECK_INITIAL_CONNECT_BACKOFF_SECONDS_def)
  from health_check_call_end [where att = ex_attempt_time and c = ex_health_client
      and self = ?self and es = "Some GRPC_STATUS_UNAVAILABLE" and ms = None]
    st use up seen
  obtain c' effs where
    "RecvTrailingMetadataReady ex_attempt_time ex_health_client ?self
       (Some GRPC_STATUS_UNAVAILABLE) None = Inr (c', effs)"
    "health_state c' = GRPC_CHANNEL_TRANSIENT_FAILURE" "call_state c' = None"
    "health_retry_timer c'
       = Some (ex_attempt_time (options (retry_backoff ex_health_client))
                 (attempts (retry_backoff ex_health_client)))"
    "arms_timer effs" "\<not> starts_call effs"
    by blast
  with st use up t show ?thesis
    by (simp add: ex_health_outcome_def)
qed

text \<open>
  A call that has seen a response and then ends with \<^verbatim>\<open>UNAVAILABLE\<close>: the client
  publishes \<^verbatim>\<open>CONNECTING\<close> and starts call 1 at once; no timer is armed.
\<close>

theorem seen_response_restarts_without_timer:
  "trailing_status (Some GRPC_STATUS_UNAVAILABLE) None = GRPC_STATUS_UNAVAILABLE
   \<and> in_use ex_health_client \<lparr>call_id = 0, seen_response = True\<rparr>
   \<and> map_sum id snd (ex_health_outcome True) = Inr [CallStateStartCall 1]
   \<and> map_sum id (health_state \<circ> fst) (ex_health_outcome True)
       = Inr GRPC_CHANNEL_CONNECTING
   \<and> map_sum id (health_retry_timer \<circ> fst) (ex_health_outcome True) = Inr None
   \<and> \<not> arms_timer [CallStateStartCall 1]"
  by (simp add: trailing_status_def in_use_def ex_health_client_def ex_health_outcome_def
      RecvTrailingMetadataReady_def CallEnded_def StartCallLocked_def
      SetHealthStatusLocked_def Reset_def arms_timer_def Let_def)

section \<open>The policy behind the name pick_first\<close>

lemma find_round_robin:
  "RoundRobinFactory \<in> set registry \<Longrightarrow>
     find (\<lambda>f. name f = ''pick_first'') registry = Some RoundRobinFactory"
proof (induction registry)
  case Nil
  then show ?case by simp
next
  case (Cons f registry)
  then show ?case by (cases f) auto
qed

text \<open>
  Claim C10. The factory of round_robin.cc answers to the name \<^verbatim>\<open>pick_first\<close>, and
  \<open>grpc_lb_policy_pick_first_init\<close> registers it. For a resolver result that names no
  LB policy and holds no balancer address the channel settles on the name
  \<^verbatim>\<open>pick_first\<close>, and with that factory in the registry the policy created under this
  name is a round-robin policy, whatever the member without initializer holds.
\<close>

theorem pick_first_is_round_robin:
  assumes noname: "grpc_channel_args_find result GRPC_ARG_LB_POLICY_NAME = None"
    and nobal: "\<not> found_balancer_address result"
    and ccf: "client_channel_factory a \<noteq> None"
    and reg: "RoundRobinFactory \<in> set registry"
  shows "name RoundRobinFactory = ''pick_first''
       \<and> resolver_result_lb_policy_name result = Inr ''pick_first''
       \<and> RoundRobinFactory \<in> set (grpc_lb_policy_pick_first_init registry0)
       \<and> (\<exists>p. grpc_lb_policy_create indeterminate registry ''pick_first'' a
                 = Inr (Some (RoundRobin_policy p)))"
  using assms find_round_robin [OF reg]
  by (auto simp: resolver_result_lb_policy_name_def grpc_lb_policy_create_def
      grpc_lb_policy_pick_first_init_def RegisterLoadBalancingPolicyFactory_def
      RoundRobin_new_def)

text \<open>
  The theorem at a resolver result with one backend address and the registry after
  both registration functions.
\<close>

theorem pick_first_is_round_robin_witness:
  "grpc_channel_args_find ex_result GRPC_ARG_LB_POLICY_NAME = None
   \<and> \<not> found_balancer_address ex_result
   \<and> client_channel_factory ex_lb_args \<noteq> None
   \<and> ex_registry = [RoundRobinFactory, GrpcLbFactory]
   \<and> resolver_result_lb_policy_name ex_result = Inr ''pick_first''
   \<and> (\<exists>p. grpc_lb_policy_create None ex_registry ''pick_first'' ex_lb_args
             = Inr (Some (RoundRobin_policy p)))"
proof -
  have noname: "grpc_channel_args_find ex_result GRPC_ARG_LB_POLICY_NAME = None"
    by (simp add: ex_result_def grpc_channel_args_find_def GRPC_ARG_LB_POLICY_NAME_def
        GRPC_ARG_LB_ADDRESSES_def)
  have nobal: "\<not> found_balancer_address ex_result"
    by (simp add: found_balancer_address_def ex_result_def grpc_channel_args_find_def)
  have ccf: "client_channel_factory ex_lb_args \<noteq> None"
    by (simp add: ex_lb_args_def)
  have regs: "ex_registry = [RoundRobinFactory, GrpcLbFactory]"
    by (simp add: ex_registry_def grpc_lb_policy_grpclb_init_def
        grpc_lb_policy_pick_first_init_def RegisterLoadBalancingPolicyFactory_def)
  have reg: "RoundRobinFactory \<in> set ex_registry"
    by (simp add: regs)
  from pick_first_is_round_robin [OF noname nobal ccf reg] noname nobal ccf regs
  show ?thesis by blast
qed

end
